theory Spec2Isabelle
  imports Main
begin

section \<open>ECMAScript time values and calendar arithmetic\<close>

text \<open>
  The server code manipulates JavaScript \<open>Date\<close> objects.  A \<open>Date\<close> holds a time value:
  either \<open>NaN\<close> (an "Invalid Date") or an integral number of milliseconds since
  1970-01-01T00:00:00Z.  The calendar functions below are the ones of the ECMAScript
  specification (section "Time Values and Time Range" and following), written over \<open>int\<close>
  (HOL's \<open>div\<close> and \<open>mod\<close> on \<open>int\<close> round towards minus infinity, as the specification's
  \<open>floor\<close> and modulo do).  The local-time methods (\<open>getDate\<close>, \<open>setDate\<close>, \<open>setMonth\<close>,
  \<open>setHours\<close>, \<open>getDay\<close>, the multi-argument constructor) are modelled for a process whose
  local time zone is UTC (local time zone adjustment 0, no daylight saving).
\<close>

datatype jsdate = Invalid | At int

definition msPerDay :: int where
  "msPerDay = 86400000"

definition day_of :: "int \<Rightarrow> int" where
  "day_of t = t div msPerDay"

definition timeWithinDay :: "int \<Rightarrow> int" where
  "timeWithinDay t = t mod msPerDay"

definition dayFromYear :: "int \<Rightarrow> int" where
  "dayFromYear y = 365 * (y - 1970) + (y - 1969) div 4 - (y - 1901) div 100 + (y - 1601) div 400"

definition inLeapYear :: "int \<Rightarrow> int" where
  "inLeapYear y =
     (if y mod 4 \<noteq> 0 then 0 else if y mod 100 \<noteq> 0 then 1 else if y mod 400 \<noteq> 0 then 0 else 1)"

text \<open>
  \<open>yearFromDay d\<close> is the year \<open>y\<close> with \<open>dayFromYear y \<le> d < dayFromYear (y + 1)\<close>
  (lemma \<open>yearFromDay_bracket\<close> below): an estimate from the mean year length, corrected by
  at most one year.
\<close>

definition yearFromDay :: "int \<Rightarrow> int" where
  "yearFromDay d =
     (let y = 1970 + (400 * d) div 146097
      in if d < dayFromYear y then y - 1
         else if dayFromYear (y + 1) \<le> d then y + 1
         else y)"

definition dayWithinYear :: "int \<Rightarrow> int" where
  "dayWithinYear d = d - dayFromYear (yearFromDay d)"

text \<open>First day (within the year) of month \<open>m\<close> (0 = January), for a leap flag \<open>l\<close> of 0 or 1.\<close>

definition monthStart :: "int \<Rightarrow> int \<Rightarrow> int" where
  "monthStart m l =
     (if m = 0 then 0 else if m = 1 then 31 else if m = 2 then 59 + l
      else if m = 3 then 90 + l else if m = 4 then 120 + l else if m = 5 then 151 + l
      else if m = 6 then 181 + l else if m = 7 then 212 + l else if m = 8 then 243 + l
      else if m = 9 then 273 + l else if m = 10 then 304 + l else 334 + l)"

definition monthFromDay :: "int \<Rightarrow> int" where
  "monthFromDay d =
     (let w = dayWithinYear d; l = inLeapYear (yearFromDay d)
      in if w < 31 then 0 else if w < 59 + l then 1 else if w < 90 + l then 2
         else if w < 120 + l then 3 else if w < 151 + l then 4 else if w < 181 + l then 5
         else if w < 212 + l then 6 else if w < 243 + l then 7 else if w < 273 + l then 8
         else if w < 304 + l then 9 else if w < 334 + l then 10 else 11)"

definition dateFromDay :: "int \<Rightarrow> int" where
  "dateFromDay d =
     dayWithinYear d - monthStart (monthFromDay d) (inLeapYear (yearFromDay d)) + 1"

definition weekDay :: "int \<Rightarrow> int" where
  "weekDay t = (day_of t + 4) mod 7"

definition makeDay :: "int \<Rightarrow> int \<Rightarrow> int \<Rightarrow> int" where
  "makeDay year month dt =
     (let ym = year + month div 12; mn = month mod 12
      in dayFromYear ym + monthStart mn (inLeapYear ym) + dt - 1)"

definition makeDate :: "int \<Rightarrow> int \<Rightarrow> int" where
  "makeDate d time = d * msPerDay + time"

definition timeClip :: "int \<Rightarrow> jsdate" where
  "timeClip t = (if \<bar>t\<bar> \<le> 8640000000000000 then At t else Invalid)"

subsection \<open>Methods of \<open>Date\<close>\<close>

text \<open>Getters return \<open>None\<close> for \<open>NaN\<close>.\<close>

fun getTime :: "jsdate \<Rightarrow> int option" where
  "getTime Invalid = None"
| "getTime (At t) = Some t"

fun getFullYear :: "jsdate \<Rightarrow> int option" where
  "getFullYear Invalid = None"
| "getFullYear (At t) = Some (yearFromDay (day_of t))"

fun getMonth :: "jsdate \<Rightarrow> int option" where
  "getMonth Invalid = None"
| "getMonth (At t) = Some (monthFromDay (day_of t))"

fun getDate :: "jsdate \<Rightarrow> int option" where
  "getDate Invalid = None"
| "getDate (At t) = Some (dateFromDay (day_of t))"

fun getDay :: "jsdate \<Rightarrow> int option" where
  "getDay Invalid = None"
| "getDay (At t) = Some (weekDay t)"

text \<open>\<open>d.setDate(n)\<close>, \<open>d.setMonth(m)\<close> and \<open>d.setHours(h, mi, s, ms)\<close>: the new time value.\<close>

fun setDate :: "jsdate \<Rightarrow> int option \<Rightarrow> jsdate" where
  "setDate (At t) (Some dt) =
     timeClip (makeDate (makeDay (yearFromDay (day_of t)) (monthFromDay (day_of t)) dt)
                        (timeWithinDay t))"
| "setDate _ _ = Invalid"

fun setMonth :: "jsdate \<Rightarrow> int option \<Rightarrow> jsdate" where
  "setMonth (At t) (Some m) =
     timeClip (makeDate (makeDay (yearFromDay (day_of t)) m (dateFromDay (day_of t)))
                        (timeWithinDay t))"
| "setMonth _ _ = Invalid"

fun setHours :: "jsdate \<Rightarrow> int \<Rightarrow> int \<Rightarrow> int \<Rightarrow> int \<Rightarrow> jsdate" where
  "setHours (At t) h mi s ms =
     timeClip (makeDate (day_of t) (h * 3600000 + mi * 60000 + s * 1000 + ms))"
| "setHours Invalid _ _ _ _ = Invalid"

text \<open>
  \<open>new Date(year, month, date)\<close>; a year from 0 to 99 means 1900 + year.  The arguments
  are \<open>NaN\<close> when they were read off an Invalid Date.
\<close>

fun newDateYMD :: "int option \<Rightarrow> int option \<Rightarrow> int \<Rightarrow> jsdate" where
  "newDateYMD (Some y) (Some m) dt =
     timeClip (makeDate (makeDay (if 0 \<le> y \<and> y \<le> 99 then 1900 + y else y) m dt) 0)"
| "newDateYMD _ _ _ = Invalid"

text \<open>\<open>Date.UTC(year, month, date)\<close>: a number, \<open>None\<close> for \<open>NaN\<close>.\<close>

definition dateUTC :: "int option \<Rightarrow> int option \<Rightarrow> int option \<Rightarrow> int option" where
  "dateUTC y m dt = (case (y, m, dt) of
      (Some y', Some m', Some d') \<Rightarrow>
        getTime (timeClip (makeDate (makeDay (if 0 \<le> y' \<and> y' \<le> 99 then 1900 + y' else y') m' d') 0))
    | _ \<Rightarrow> None)"

text \<open>The relational operators on two dates compare time values; with a \<open>NaN\<close> they are false.\<close>

fun date_less :: "jsdate \<Rightarrow> jsdate \<Rightarrow> bool" where
  "date_less (At a) (At b) = (a < b)"
| "date_less _ _ = False"

fun date_le :: "jsdate \<Rightarrow> jsdate \<Rightarrow> bool" where
  "date_le (At a) (At b) = (a \<le> b)"
| "date_le _ _ = False"

text \<open>The idiom \<open>x.setDate(x.getDate() + n)\<close> used throughout the server.\<close>

definition shiftDays :: "jsdate \<Rightarrow> int \<Rightarrow> jsdate" where
  "shiftDays x n = setDate x (map_option (\<lambda>g. g + n) (getDate x))"

text \<open>The idiom \<open>x.setMonth(x.getMonth() + n)\<close>.\<close>

definition shiftMonths :: "jsdate \<Rightarrow> int \<Rightarrow> jsdate" where
  "shiftMonths x n = setMonth x (map_option (\<lambda>g. g + n) (getMonth x))"

text \<open>The time value of midnight UTC at the start of a civil date (month 1 = January).\<close>

definition utc :: "int \<Rightarrow> int \<Rightarrow> int \<Rightarrow> int" where
  "utc y m d = makeDate (makeDay y (m - 1) d) 0"


section \<open>Documents\<close>

text \<open>
  The Mongoose schemas of the server (\<open>inseminationSchema\<close>, \<open>cowSchema\<close>, \<open>calfSchema\<close>,
  \<open>settingsSchema\<close>, \<open>confirmationSchema\<close>), with the fields the computations read.  A
  stored \<open>Date\<close> is its (valid) time value; an optional field is an \<open>option\<close>; an \<open>_id\<close> is
  the string \<open>String(_id)\<close>.  A \<open>Number\<close> setting is an integer or absent.
\<close>

record insemination =
  ins_id :: string
  cowId :: string
  date :: int
  confirmedPregnant :: bool
  failed :: bool
  forced :: bool

record cow =
  cow_id :: string
  cowNumber :: "string option"
  cowName :: "string option"
  lastCalving :: "int option"

record calf =
  calf_id :: string
  calfName :: "string option"
  birthDate :: "int option"
  gender :: "string option"
  calf_status :: string
  graduated :: bool

record settings =
  gestationDays :: "int option"
  dryOffAfterSuccessfulInsemDays :: "int option"
  changeFeedAfterSuccessfulInsemDays :: "int option"
  postpartumInseminationStartDays :: "int option"
  inseminationIntervalDays :: "int option"
  calvingAlertBeforeDays :: "int option"
  dryOffAlertBeforeDays :: "int option"
  changeFeedAlertBeforeDays :: "int option"
  pregnancyCheckAlertBeforeDays :: "int option"
  inseminationAlertBeforeDays :: "int option"
  graduationAlertBeforeDays :: "int option"
  weaningAlertBeforeDays :: "int option"
  femaleWeaningDays :: "int option"
  maleWeaningDays :: "int option"
  femaleMaturityMonths :: "int option"
  maleMaturityMonths :: "int option"

record confirmation =
  conf_id :: string
  entityType :: string
  entityId :: string
  conf_type :: string
  conf_when :: int
  undone :: bool

datatype js_error = TypeError | RangeError

text \<open>A JavaScript number that is an integer or \<open>NaN\<close>.\<close>

datatype jsnum = NaN | Num int

subsection \<open>Reading a setting\<close>

text \<open>
  \<open>settings?.f\<close> is \<open>undefined\<close> when the settings document is \<open>null\<close>.
  \<open>x || d\<close> replaces every falsy \<open>x\<close> (\<open>undefined\<close> and \<open>0\<close>) by \<open>d\<close>;
  \<open>x ?? d\<close> replaces only \<open>undefined\<close> and \<open>null\<close>.
\<close>

definition opt_chain :: "settings option \<Rightarrow> (settings \<Rightarrow> int option) \<Rightarrow> int option" where
  "opt_chain s f = (case s of None \<Rightarrow> None | Some d \<Rightarrow> f d)"

definition or_default :: "int option \<Rightarrow> int \<Rightarrow> int" where
  "or_default x d = (case x of None \<Rightarrow> d | Some v \<Rightarrow> if v = 0 then d else v)"

definition nullish_default :: "int option \<Rightarrow> int \<Rightarrow> int" where
  "nullish_default x d = (case x of None \<Rightarrow> d | Some v \<Rightarrow> v)"

section \<open>The reproductive state calculator: \<open>buildPregnancyInfo\<close>\<close>

text \<open>The object \<open>buildPregnancyInfo\<close> returns.  A date field is \<open>None\<close> when it is \<open>null\<close>.\<close>

record repro =
  status :: string
  conceptionDate :: "jsdate option"
  estCalving :: "jsdate option"
  dryOffDate :: "jsdate option"
  changeFeedDate :: "jsdate option"
  retryWindowEnd :: "jsdate option"
  nextInseminationEarliest :: "jsdate option"
  canAddInseminationNow :: bool
  canRetryNow :: bool
  canConfirmNow :: bool
  gestationDays_used :: int
  latest :: "insemination option"
  allRecordsCount :: nat
  daysUntilRetryWindowEnd :: "jsnum option"
  daysUntilCalving :: "jsnum option"
  daysUntilDryOff :: "jsnum option"
  daysUntilChangeFeed :: "jsnum option"
  daysUntilLatestInsemination :: "jsnum option"
  daysUntilLastCalving :: "jsnum option"
  daysUntilConception :: "jsnum option"
  daysUntilNextInseminationEarliest :: "jsnum option"

text \<open>
  \<open>toUTCYMD d = Date.UTC(d.getFullYear(), d.getMonth(), d.getDate())\<close> and
  \<open>daysBetween a b = Math.round((toUTCYMD(a) - toUTCYMD(b)) / DAY_MS)\<close>
  (\<open>Math.round\<close> rounds a half upwards).
\<close>

definition toUTCYMD :: "jsdate \<Rightarrow> int option" where
  "toUTCYMD d = dateUTC (getFullYear d) (getMonth d) (getDate d)"

definition daysBetween :: "jsdate \<Rightarrow> jsdate \<Rightarrow> jsnum" where
  "daysBetween futureOrPastDate refDate =
     (case (toUTCYMD futureOrPastDate, toUTCYMD refDate) of
        (Some a, Some b) \<Rightarrow> Num ((2 * (a - b) + msPerDay) div (2 * msPerDay))
      | _ \<Rightarrow> NaN)"

text \<open>
  \<open>insems.filter(r => String(r.cowId) === String(cow._id)).sort((a,b) => new Date(b.date) - new Date(a.date))\<close>:
  the cow's records by descending date; \<open>Array.prototype.sort\<close> is stable.
\<close>

definition allRecords :: "cow \<Rightarrow> insemination list \<Rightarrow> insemination list" where
  "allRecords c insems = sort_key (\<lambda>r. - date r) (filter (\<lambda>r. cowId r = cow_id c) insems)"

definition latest_of :: "insemination list \<Rightarrow> insemination option" where
  "latest_of rs = (case rs of [] \<Rightarrow> None | r # _ \<Rightarrow> Some r)"

text \<open>The local variables as they are initialised before the first branch.\<close>

definition initial_repro :: repro where
  "initial_repro = \<lparr> status = ''Open'', conceptionDate = None, estCalving = None,
     dryOffDate = None, changeFeedDate = None, retryWindowEnd = None,
     nextInseminationEarliest = None, canAddInseminationNow = False, canRetryNow = False,
     canConfirmNow = False, gestationDays_used = 0, latest = None, allRecordsCount = 0,
     daysUntilRetryWindowEnd = None, daysUntilCalving = None, daysUntilDryOff = None,
     daysUntilChangeFeed = None, daysUntilLatestInsemination = None,
     daysUntilLastCalving = None, daysUntilConception = None,
     daysUntilNextInseminationEarliest = None \<rparr>"

text \<open>The branch on the latest record (\<open>if (latest.confirmedPregnant) ... else if (latest.failed) ... else ...\<close>).\<close>

definition latest_branch ::
  "insemination \<Rightarrow> int \<Rightarrow> int \<Rightarrow> int \<Rightarrow> int \<Rightarrow> jsdate \<Rightarrow> repro \<Rightarrow> repro" where
  "latest_branch l gestation dryOff changeFeed retryInterval now r =
     (let latestDate = At (date l) in
      if confirmedPregnant l then
        r\<lparr> status := ''Pregnant'',
           conceptionDate := Some latestDate,
           estCalving := Some (shiftDays latestDate gestation),
           dryOffDate := Some (shiftDays latestDate dryOff),
           changeFeedDate := Some (shiftDays latestDate changeFeed),
           daysUntilCalving := Some (daysBetween (shiftDays latestDate gestation) now),
           daysUntilDryOff := Some (daysBetween (shiftDays latestDate dryOff) now),
           daysUntilChangeFeed := Some (daysBetween (shiftDays latestDate changeFeed) now),
           daysUntilConception := Some (daysBetween latestDate now) \<rparr>
      else if failed l then
        r\<lparr> status := ''Open'',
           nextInseminationEarliest := Some (shiftDays latestDate retryInterval),
           daysUntilLatestInsemination := Some (daysBetween latestDate now) \<rparr>
      else
        r\<lparr> status := ''Pending'',
           retryWindowEnd := Some (shiftDays latestDate retryInterval),
           daysUntilRetryWindowEnd := Some (daysBetween (shiftDays latestDate retryInterval) now),
           daysUntilLatestInsemination := Some (daysBetween latestDate now) \<rparr>)"

text \<open>
  \<open>if (status === 'Pregnant' && lastCalving && conceptionDate && lastCalving > conceptionDate)\<close>:
  a calving recorded after conception reopens the cycle.
\<close>

definition reopen :: "jsdate option \<Rightarrow> repro \<Rightarrow> repro" where
  "reopen lastCalv r =
     (if status r = ''Pregnant'' \<and>
         (case (lastCalv, conceptionDate r) of
            (Some lc, Some cd) \<Rightarrow> date_less cd lc
          | _ \<Rightarrow> False)
      then r\<lparr> status := ''Open'', conceptionDate := None, estCalving := None,
              dryOffDate := None, changeFeedDate := None, daysUntilCalving := None \<rparr>
      else r)"

text \<open>
  \<open>if (lastCalving) { ... }\<close>: the postpartum earliest date, merged with an earliest date
  that is already set by taking the later one.
\<close>

definition postpartum :: "jsdate option \<Rightarrow> int \<Rightarrow> repro \<Rightarrow> repro" where
  "postpartum lastCalv postpartumStartDays r =
     (case lastCalv of
        None \<Rightarrow> r
      | Some lc \<Rightarrow>
          (let postpartumEarliest = shiftDays lc postpartumStartDays in
           case nextInseminationEarliest r of
             Some n \<Rightarrow> if date_less n postpartumEarliest
                        then r\<lparr> nextInseminationEarliest := Some postpartumEarliest \<rparr>
                        else r
           | None \<Rightarrow> r\<lparr> nextInseminationEarliest := Some postpartumEarliest \<rparr>))"

text \<open>
  The derived flags and counters computed after the branches, and the returned object.
  \<open>status === 'Pending' && retryWindowEnd && now >= retryWindowEnd\<close> would be \<open>null\<close> for a
  \<open>null\<close> \<open>retryWindowEnd\<close>; the flag is \<open>False\<close> there, and the state \<open>Pending\<close> always
  has a \<open>retryWindowEnd\<close>.
\<close>

definition finish ::
  "cow \<Rightarrow> insemination option \<Rightarrow> nat \<Rightarrow> int \<Rightarrow> jsdate \<Rightarrow> repro \<Rightarrow> repro" where
  "finish c lat cnt gestation now r =
     r\<lparr> canAddInseminationNow :=
           (status r = ''Open'' \<and>
            (case nextInseminationEarliest r of None \<Rightarrow> True | Some n \<Rightarrow> date_le n now)),
        canRetryNow :=
           (status r = ''Pending'' \<and>
            (case retryWindowEnd r of None \<Rightarrow> False | Some w \<Rightarrow> date_le w now)),
        daysUntilNextInseminationEarliest :=
           (case nextInseminationEarliest r of None \<Rightarrow> None | Some n \<Rightarrow> Some (daysBetween n now)),
        daysUntilLastCalving :=
           (case lastCalving c of None \<Rightarrow> daysUntilLastCalving r
            | Some lc \<Rightarrow> Some (daysBetween (At lc) now)),
        daysUntilLatestInsemination :=
           (case lat of None \<Rightarrow> daysUntilLatestInsemination r
            | Some l \<Rightarrow> Some (daysBetween (At (date l)) now)),
        canConfirmNow :=
           (status r = ''Pending'' \<and>
            (case retryWindowEnd r of None \<Rightarrow> False | Some w \<Rightarrow> date_le w now)),
        gestationDays_used := gestation,
        latest := lat,
        allRecordsCount := cnt \<rparr>"

text \<open>
  The five timing parameters as \<open>buildPregnancyInfo\<close> resolves them
  (\<open>settings?.gestationDays || 283\<close> and the four lines after it).
\<close>

record timing =
  t_gestationDays :: int
  t_dryOffDays :: int
  t_changeFeedDays :: int
  t_postpartumStartDays :: int
  t_retryIntervalDays :: int

definition timing_of :: "settings option \<Rightarrow> timing" where
  "timing_of sett =
     \<lparr> t_gestationDays = or_default (opt_chain sett gestationDays) 283,
       t_dryOffDays = or_default (opt_chain sett dryOffAfterSuccessfulInsemDays) 220,
       t_changeFeedDays = or_default (opt_chain sett changeFeedAfterSuccessfulInsemDays) 260,
       t_postpartumStartDays = or_default (opt_chain sett postpartumInseminationStartDays) 60,
       t_retryIntervalDays = or_default (opt_chain sett inseminationIntervalDays) 90 \<rparr>"

text \<open>
  \<open>buildPregnancyInfo(cow, settings, insems)\<close>.  \<open>clock\<close> is the reading of the clock
  (\<open>new Date()\<close>).  A \<open>null\<close> cow makes \<open>cow.lastCalving\<close> (and \<open>cow._id\<close>) throw a
  \<open>TypeError\<close>; a \<open>null\<close> settings document is read through \<open>?.\<close>.
\<close>

definition buildPregnancyInfo ::
  "cow option \<Rightarrow> settings option \<Rightarrow> insemination list \<Rightarrow> int \<Rightarrow> js_error + repro" where
  "buildPregnancyInfo cw sett insems clock =
     (case cw of
        None \<Rightarrow> Inl TypeError
      | Some c \<Rightarrow>
          (let now = At clock;
               tm = timing_of sett;
               recs = allRecords c insems;
               lat = latest_of recs;
               lastCalv = map_option At (lastCalving c);
               r1 = (case lat of
                       None \<Rightarrow> initial_repro
                     | Some l \<Rightarrow>
                         reopen lastCalv
                           (latest_branch l (t_gestationDays tm) (t_dryOffDays tm)
                              (t_changeFeedDays tm) (t_retryIntervalDays tm) now initial_repro));
               r2 = postpartum lastCalv (t_postpartumStartDays tm) r1
           in Inr (finish c lat (length recs) (t_gestationDays tm) now r2)))"

subsection \<open>The writers of insemination records\<close>

text \<open>
  The routes of the cow profile: \<open>POST /cow/:id/insemination\<close> creates an
  attempt (\<open>confirmedPregnant: false\<close>, \<open>failed\<close> at its default \<open>false\<close>); \<open>.../confirm\<close>
  sets \<open>{ confirmedPregnant: true, failed: false }\<close>, \<open>.../unconfirm\<close> sets both to \<open>false\<close>
  and \<open>.../fail\<close> sets \<open>{ failed: true, confirmedPregnant: false }\<close>.
\<close>

definition new_attempt :: "string \<Rightarrow> string \<Rightarrow> int \<Rightarrow> bool \<Rightarrow> insemination" where
  "new_attempt i c d f =
     \<lparr> ins_id = i, cowId = c, date = d, confirmedPregnant = False, failed = False, forced = f \<rparr>"

definition mark_confirmed :: "insemination \<Rightarrow> insemination" where
  "mark_confirmed r = r\<lparr> confirmedPregnant := True, failed := False \<rparr>"

definition mark_unconfirmed :: "insemination \<Rightarrow> insemination" where
  "mark_unconfirmed r = r\<lparr> confirmedPregnant := False, failed := False \<rparr>"

definition mark_failed :: "insemination \<Rightarrow> insemination" where
  "mark_failed r = r\<lparr> failed := True, confirmedPregnant := False \<rparr>"

text \<open>
  The import route of the community router, \<open>POST /import/execute\<close> (\<open>Insemination.create({ cowId, community, date: new Date(ins.date),
  confirmedPregnant: ins.confirmedPregnant, failed: ins.failed, forced: ins.forced, ... })\<close>, for a
  cow that exists and for a new one) copies both flags from the uploaded document, and the
  two restore routes (\<open>.../insemination/restore/:auditId\<close> and \<open>.../restoreAll/:auditId\<close>)
  copy them from a snapshot of the audit log (\<open>confirmedPregnant: !!snap.confirmedPregnant,
  failed: !!snap.failed\<close>); neither compares the two flags.
\<close>

definition import_record :: "string \<Rightarrow> string \<Rightarrow> int \<Rightarrow> bool \<Rightarrow> bool \<Rightarrow> bool \<Rightarrow> insemination" where
  "import_record i c d cp fl fo =
     \<lparr> ins_id = i, cowId = c, date = d, confirmedPregnant = cp, failed = fl, forced = fo \<rparr>"

definition restore_record :: "string \<Rightarrow> string \<Rightarrow> int \<Rightarrow> bool \<Rightarrow> bool \<Rightarrow> bool \<Rightarrow> insemination" where
  "restore_record i c d cp fl fo =
     \<lparr> ins_id = i, cowId = c, date = d, confirmedPregnant = cp, failed = fl, forced = fo \<rparr>"

text \<open>The records that can be stored.\<close>

inductive stored :: "insemination \<Rightarrow> bool" where
  by_create: "stored (new_attempt i c d f)"
| by_confirm: "stored r \<Longrightarrow> stored (mark_confirmed r)"
| by_unconfirm: "stored r \<Longrightarrow> stored (mark_unconfirmed r)"
| by_fail: "stored r \<Longrightarrow> stored (mark_failed r)"
| by_import: "stored (import_record i c d cp fl fo)"
| by_restore: "stored (restore_record i c d cp fl fo)"


section \<open>Calf maturity: \<open>getCalfGraduationInfo\<close>\<close>

text \<open>
  The guard \<open>!calf.birthDate || !calf.gender\<close>: it fails for a calf without a birth date or
  without a gender (\<open>undefined\<close> and the empty string are falsy); otherwise the two values.
\<close>

definition birth_and_gender :: "calf \<Rightarrow> (int \<times> string) option" where
  "birth_and_gender k =
     (case birthDate k of
        None \<Rightarrow> None
      | Some b \<Rightarrow> (case gender k of
                     None \<Rightarrow> None
                   | Some g \<Rightarrow> if g = [] then None else Some (b, g)))"

text \<open>\<open>x || d\<close> for an optional string.\<close>

definition str_or :: "string option \<Rightarrow> string \<Rightarrow> string" where
  "str_or x d = (case x of None \<Rightarrow> d | Some s \<Rightarrow> if s = [] then d else s)"

record gradInfo =
  targetDate :: jsdate
  daysLeft :: jsnum
  ready :: bool

text \<open>
  \<open>thresholdMonths\<close>: \<open>calf.gender === 'female' ? femaleMonths : maleMonths\<close>, each read
  with \<open>?? 24\<close>.
\<close>

definition maturityMonths :: "settings option \<Rightarrow> string \<Rightarrow> int" where
  "maturityMonths sett g =
     (if g = ''female'' then nullish_default (opt_chain sett femaleMaturityMonths) 24
      else nullish_default (opt_chain sett maleMaturityMonths) 24)"

text \<open>
  The difference of two time values is computed in double precision.  Time values are
  integers of magnitude at most 8640000000000000, so their difference is below 2 to the 54 in
  magnitude: it is exact up to 2 to the 53 (9007199254740992), and beyond that an odd difference is rounded to the
  neighbouring even integer whose half is even (round to nearest, ties to even).
\<close>

definition roundDouble :: "int \<Rightarrow> int" where
  "roundDouble d =
     (if \<bar>d\<bar> \<le> 9007199254740992 \<or> even d then d
      else if 4 dvd (d - 1) then d - 1 else d + 1)"

text \<open>
  \<open>msLeft = target - now\<close>, \<open>daysLeft = Math.ceil(msLeft / 86400000)\<close>,
  \<open>ready = msLeft <= 0\<close>; with an invalid target both are \<open>NaN\<close> and \<open>false\<close>.  \<open>clock\<close> is
  the time value of \<open>now\<close>.  The quotient of the division is rounded too, but never onto
  an integer: a quotient that is not an integer is at least \<open>1/86400000\<close> away from one
  (\<open>2/86400000\<close> when \<open>msLeft\<close> is beyond 2 to the 53, where it is even), which is more than half the
  distance between neighbouring doubles of that size; so \<open>Math.ceil\<close> gives the ceiling of
  the exact quotient of \<open>msLeft\<close>.
\<close>

definition getCalfGraduationInfo :: "calf option \<Rightarrow> settings option \<Rightarrow> int \<Rightarrow> gradInfo option" where
  "getCalfGraduationInfo cf sett clock =
     (case cf of
        None \<Rightarrow> None
      | Some k \<Rightarrow>
          (case birth_and_gender k of
             None \<Rightarrow> None
           | Some (b, g) \<Rightarrow>
               (let target = shiftMonths (At b) (maturityMonths sett g)
                in case target of
                     Invalid \<Rightarrow> Some \<lparr> targetDate = target, daysLeft = NaN, ready = False \<rparr>
                   | At t \<Rightarrow>
                       (let msLeft = roundDouble (t - clock)
                        in Some \<lparr> targetDate = target,
                                  daysLeft = Num (- ((- msLeft) div msPerDay)),
                                  ready = (msLeft \<le> 0) \<rparr>))))"

section \<open>The alert builder: \<open>buildAlerts\<close>\<close>

record entity =
  ent_type :: string
  ent_id :: string
  ent_name :: string

datatype meta = EmptyMeta | LatestId "string option"

record event =
  ev_when :: jsdate
  alertDate :: jsdate
  ev_type :: string
  label :: string
  entity :: entity
  meta :: meta

text \<open>The object \<open>lead\<close> of alert lead times, each read with \<open>??\<close>.\<close>

record lead =
  lead_calving :: int
  lead_dryOff :: int
  lead_changeFeed :: int
  lead_pregnancyCheck :: int
  lead_insemination :: int
  lead_graduation :: int
  lead_weaning :: int

definition lead_of :: "settings option \<Rightarrow> lead" where
  "lead_of sett =
     \<lparr> lead_calving = nullish_default (opt_chain sett calvingAlertBeforeDays) 10,
       lead_dryOff = nullish_default (opt_chain sett dryOffAlertBeforeDays) 1,
       lead_changeFeed = nullish_default (opt_chain sett changeFeedAlertBeforeDays) 1,
       lead_pregnancyCheck = nullish_default (opt_chain sett pregnancyCheckAlertBeforeDays) 3,
       lead_insemination = nullish_default (opt_chain sett inseminationAlertBeforeDays) 0,
       lead_graduation = nullish_default (opt_chain sett graduationAlertBeforeDays) 7,
       lead_weaning = nullish_default (opt_chain sett weaningAlertBeforeDays) 7 \<rparr>"

text \<open>\<open>lead[type]\<close>: \<open>undefined\<close> for a key the object does not have.\<close>

definition lead_lookup :: "lead \<Rightarrow> string \<Rightarrow> int option" where
  "lead_lookup ld ty =
     (if ty = ''calving'' then Some (lead_calving ld)
      else if ty = ''dryOff'' then Some (lead_dryOff ld)
      else if ty = ''changeFeed'' then Some (lead_changeFeed ld)
      else if ty = ''pregnancyCheck'' then Some (lead_pregnancyCheck ld)
      else if ty = ''insemination'' then Some (lead_insemination ld)
      else if ty = ''graduation'' then Some (lead_graduation ld)
      else if ty = ''weaning'' then Some (lead_weaning ld)
      else None)"

text \<open>
  The closure \<open>push(date, type, label, meta)\<close> of the cow loop: nothing for a \<open>null\<close> date,
  otherwise one event whose \<open>alertDate\<close> is \<open>when\<close> moved back by \<open>lead[type] || 0\<close> days.
\<close>

definition push :: "lead \<Rightarrow> cow \<Rightarrow> jsdate option \<Rightarrow> string \<Rightarrow> string \<Rightarrow> meta \<Rightarrow> event list \<Rightarrow> event list" where
  "push ld c d ty lbl m events =
     (case d of
        None \<Rightarrow> events
      | Some w \<Rightarrow>
          events @
          [\<lparr> ev_when = w,
             alertDate = shiftDays w (- or_default (lead_lookup ld ty) 0),
             ev_type = ty, label = lbl,
             entity = \<lparr> ent_type = ''cow'', ent_id = cow_id c,
                        ent_name = str_or (cowName c) (str_or (cowNumber c) ''Cow'') \<rparr>,
             meta = m \<rparr>])"

definition cow_events :: "lead \<Rightarrow> cow \<Rightarrow> repro \<Rightarrow> event list \<Rightarrow> event list" where
  "cow_events ld c rp events =
     (let e1 = push ld c (retryWindowEnd rp) ''pregnancyCheck'' ''Pregnancy check''
                 (LatestId (map_option ins_id (latest rp))) events;
          e2 = push ld c (nextInseminationEarliest rp) ''insemination'' ''Earliest insemination''
                 EmptyMeta e1;
          e3 = push ld c (dryOffDate rp) ''dryOff'' ''Dry-Off'' EmptyMeta e2;
          e4 = push ld c (changeFeedDate rp) ''changeFeed'' ''Change Feed'' EmptyMeta e3
      in push ld c (estCalving rp) ''calving'' ''Estimated Calving'' EmptyMeta e4)"

text \<open>
  The loop over the cows.  \<open>records\<close> is the cow's group of \<open>insems\<close>, sorted by
  descending date; an exception of \<open>buildPregnancyInfo\<close> ends the loop.
\<close>

fun cows_loop ::
  "lead \<Rightarrow> settings option \<Rightarrow> insemination list \<Rightarrow> int \<Rightarrow> cow list \<Rightarrow> event list
     \<Rightarrow> js_error + event list" where
  "cows_loop ld sett insems clock [] events = Inr events"
| "cows_loop ld sett insems clock (c # cs) events =
     (case buildPregnancyInfo (Some c) sett (allRecords c insems) clock of
        Inl e \<Rightarrow> Inl e
      | Inr rp \<Rightarrow> cows_loop ld sett insems clock cs (cow_events ld c rp events))"

text \<open>The loop "Calf weaning": it skips a calf without \<open>birthDate\<close> or \<open>gender\<close>, and no other.\<close>

definition weaningDays :: "settings option \<Rightarrow> string \<Rightarrow> int" where
  "weaningDays sett g =
     (if g = ''female'' then nullish_default (opt_chain sett femaleWeaningDays) 180
      else nullish_default (opt_chain sett maleWeaningDays) 180)"

definition weaning_event :: "lead \<Rightarrow> settings option \<Rightarrow> calf \<Rightarrow> int \<Rightarrow> string \<Rightarrow> event" where
  "weaning_event ld sett k b g =
     (let wTarget = shiftDays (At b) (weaningDays sett g)
      in \<lparr> ev_when = wTarget,
            alertDate = shiftDays wTarget (- or_default (Some (lead_weaning ld)) 0),
            ev_type = ''weaning'', label = ''Weaning ('' @ g @ '')'',
            entity = \<lparr> ent_type = ''calf'', ent_id = calf_id k,
                       ent_name = str_or (calfName k) ''Calf'' \<rparr>,
            meta = EmptyMeta \<rparr>)"

fun weaning_loop :: "lead \<Rightarrow> settings option \<Rightarrow> calf list \<Rightarrow> event list \<Rightarrow> event list" where
  "weaning_loop ld sett [] events = events"
| "weaning_loop ld sett (k # ks) events =
     (case birth_and_gender k of
        None \<Rightarrow> weaning_loop ld sett ks events
      | Some (b, g) \<Rightarrow> weaning_loop ld sett ks (events @ [weaning_event ld sett k b g]))"

text \<open>The loop "Calf graduations": it also skips a graduated calf.\<close>

definition graduation_event :: "lead \<Rightarrow> settings option \<Rightarrow> calf \<Rightarrow> int \<Rightarrow> string \<Rightarrow> event" where
  "graduation_event ld sett k b g =
     (let target = shiftMonths (At b) (maturityMonths sett g)
      in \<lparr> ev_when = target,
            alertDate = shiftDays target (- or_default (Some (lead_graduation ld)) 0),
            ev_type = ''graduation'', label = ''Graduate ('' @ g @ '')'',
            entity = \<lparr> ent_type = ''calf'', ent_id = calf_id k,
                       ent_name = str_or (calfName k) ''Calf'' \<rparr>,
            meta = EmptyMeta \<rparr>)"

fun graduation_loop :: "lead \<Rightarrow> settings option \<Rightarrow> calf list \<Rightarrow> event list \<Rightarrow> event list" where
  "graduation_loop ld sett [] events = events"
| "graduation_loop ld sett (k # ks) events =
     (if graduated k then graduation_loop ld sett ks events
      else case birth_and_gender k of
        None \<Rightarrow> graduation_loop ld sett ks events
      | Some (b, g) \<Rightarrow> graduation_loop ld sett ks (events @ [graduation_event ld sett k b g]))"

text \<open>The list \<open>events\<close> after the three loops.\<close>

definition build_events ::
  "cow list \<Rightarrow> calf list \<Rightarrow> settings option \<Rightarrow> insemination list \<Rightarrow> int \<Rightarrow> js_error + event list" where
  "build_events cows calves sett insems clock =
     (let ld = lead_of sett
      in case cows_loop ld sett insems clock cows [] of
           Inl e \<Rightarrow> Inl e
         | Inr evs \<Rightarrow> Inr (graduation_loop ld sett calves (weaning_loop ld sett calves evs)))"


subsection \<open>Excluding confirmed events\<close>

text \<open>
  \<open>Date.prototype.toISOString\<close> of a valid time value: \<open>YYYY-MM-DDTHH:mm:ss.sssZ\<close>, the year
  written with a sign and six digits when it is not between 0 and 9999.
\<close>

definition digit :: "int \<Rightarrow> char" where
  "digit n = char_of (48 + n)"

definition pad2 :: "int \<Rightarrow> string" where
  "pad2 n = [digit (n div 10 mod 10), digit (n mod 10)]"

definition pad3 :: "int \<Rightarrow> string" where
  "pad3 n = [digit (n div 100 mod 10), digit (n div 10 mod 10), digit (n mod 10)]"

definition pad4 :: "int \<Rightarrow> string" where
  "pad4 n = [digit (n div 1000 mod 10), digit (n div 100 mod 10), digit (n div 10 mod 10),
             digit (n mod 10)]"

definition pad6 :: "int \<Rightarrow> string" where
  "pad6 n = [digit (n div 100000 mod 10), digit (n div 10000 mod 10), digit (n div 1000 mod 10),
             digit (n div 100 mod 10), digit (n div 10 mod 10), digit (n mod 10)]"

definition isoYear :: "int \<Rightarrow> string" where
  "isoYear y =
     (if 0 \<le> y \<and> y \<le> 9999 then pad4 y
      else (if y < 0 then CHR ''-'' else CHR ''+'') # pad6 \<bar>y\<bar>)"

definition toISOString :: "int \<Rightarrow> string" where
  "toISOString t =
     isoYear (yearFromDay (day_of t)) @ ''-'' @ pad2 (monthFromDay (day_of t) + 1) @ ''-'' @
     pad2 (dateFromDay (day_of t)) @ ''T'' @ pad2 (timeWithinDay t div 3600000) @ '':'' @
     pad2 (timeWithinDay t div 60000 mod 60) @ '':'' @ pad2 (timeWithinDay t div 1000 mod 60) @
     ''.'' @ pad3 (t mod 1000) @ ''Z''"

text \<open>\<open>new Date(d).toISOString().slice(0,10)\<close>; \<open>toISOString\<close> throws a \<open>RangeError\<close> on an Invalid Date.\<close>

fun isoDay :: "jsdate \<Rightarrow> js_error + string" where
  "isoDay Invalid = Inl RangeError"
| "isoDay (At t) = Inr (take 10 (toISOString t))"

text \<open>\<open>confKey(e)\<close>, the template \<open>${e.entity.type}:${e.entity.id}:${e.type}:${day}\<close>.\<close>

definition confKey :: "event \<Rightarrow> js_error + string" where
  "confKey e =
     (case isoDay (ev_when e) of
        Inl x \<Rightarrow> Inl x
      | Inr d \<Rightarrow> Inr (ent_type (entity e) @ '':'' @ ent_id (entity e) @ '':'' @ ev_type e @ '':'' @ d))"

text \<open>The key of a confirmation record; its \<open>when\<close> is a stored, valid date.\<close>

definition confirmationKey :: "confirmation \<Rightarrow> string" where
  "confirmationKey c =
     entityType c @ '':'' @ entityId c @ '':'' @ conf_type c @ '':'' @ take 10 (toISOString (conf_when c))"

text \<open>The set \<open>confirmed\<close>: the keys of the confirmations that are not undone.\<close>

definition confirmed :: "confirmation list \<Rightarrow> string set" where
  "confirmed confirmations = set (map confirmationKey (filter (\<lambda>c. \<not> undone c) confirmations))"

text \<open>\<open>events.filter(e => !confirmed.has(confKey(e)))\<close>; an exception of \<open>confKey\<close> ends it.\<close>

fun filter_unconfirmed :: "string set \<Rightarrow> event list \<Rightarrow> js_error + event list" where
  "filter_unconfirmed ks [] = Inr []"
| "filter_unconfirmed ks (e # es) =
     (case confKey e of
        Inl x \<Rightarrow> Inl x
      | Inr k \<Rightarrow> (case filter_unconfirmed ks es of
                    Inl x \<Rightarrow> Inl x
                  | Inr r \<Rightarrow> Inr (if k \<in> ks then r else e # r)))"

definition filterActive :: "event list \<Rightarrow> confirmation list \<Rightarrow> js_error + event list" where
  "filterActive events confirmations = filter_unconfirmed (confirmed confirmations) events"

text \<open>
  The undo endpoint, \<open>Confirmation.findByIdAndUpdate(id, { undone: true })\<close>, on the stored
  confirmations: the record with that id gets \<open>undone = true\<close>.
\<close>

fun undo :: "string \<Rightarrow> confirmation list \<Rightarrow> confirmation list" where
  "undo cid [] = []"
| "undo cid (c # cs) = (if conf_id c = cid then c\<lparr> undone := True \<rparr> # cs else c # undo cid cs)"

subsection \<open>Week and month buckets, past due\<close>

record week_bucket =
  wb_date :: jsdate
  wb_items :: "event list"

record month_bucket =
  mb_day :: int
  mb_items :: "event list"

record month_view =
  mv_year :: "int option"
  mv_monthIndex :: "int option"
  mv_days :: "month_bucket list"

record alerts =
  week :: "week_bucket list"
  weekAlerts :: "week_bucket list"
  month :: month_view
  monthDue :: month_view
  pastDue :: "event list"

record buckets =
  monthDays :: "month_bucket list"
  monthDueDays :: "month_bucket list"
  b_week :: "week_bucket list"
  b_weekAlerts :: "week_bucket list"

definition opt_minus :: "int option \<Rightarrow> int option \<Rightarrow> int option" where
  "opt_minus a b = (case (a, b) of (Some x, Some y) \<Rightarrow> Some (x - y) | _ \<Rightarrow> None)"

text \<open>\<open>for(let i=1;i<=totalDays;i++) monthDays.push({ day:i, items:[] })\<close>; no round when \<open>totalDays\<close> is \<open>NaN\<close>.\<close>

definition empty_month :: "int option \<Rightarrow> month_bucket list" where
  "empty_month totalDays =
     (case totalDays of
        None \<Rightarrow> []
      | Some n \<Rightarrow> map (\<lambda>i. \<lparr> mb_day = i, mb_items = [] \<rparr>) [1..n])"

text \<open>
  \<open>monthDays[idx-1].items.push(ev)\<close>: a \<open>TypeError\<close> when the array has no element there.
\<close>

definition month_put :: "month_bucket list \<Rightarrow> int option \<Rightarrow> event \<Rightarrow> js_error + month_bucket list" where
  "month_put ds idx ev =
     (case idx of
        None \<Rightarrow> Inl TypeError
      | Some i \<Rightarrow>
          if 1 \<le> i \<and> i \<le> int (length ds)
          then Inr (ds[nat (i - 1) :=
                      (ds ! nat (i - 1))\<lparr> mb_items := mb_items (ds ! nat (i - 1)) @ [ev] \<rparr>])
          else Inl TypeError)"

text \<open>\<open>if(week[wi]) week[wi].items.push(ev)\<close>.\<close>

definition week_put :: "week_bucket list \<Rightarrow> int \<Rightarrow> event \<Rightarrow> week_bucket list" where
  "week_put wk wi ev =
     (if 0 \<le> wi \<and> wi < int (length wk)
      then wk[nat wi := (wk ! nat wi)\<lparr> wb_items := wb_items (wk ! nat wi) @ [ev] \<rparr>]
      else wk)"

text \<open>\<open>Math.floor((d - startOfWeek)/(1000*60*60*24))\<close> for two valid dates.\<close>

fun week_index :: "jsdate \<Rightarrow> jsdate \<Rightarrow> int option" where
  "week_index (At d) (At s) = Some ((d - s) div msPerDay)"
| "week_index _ _ = None"

text \<open>The body of \<open>for(const ev of filtered)\<close>: the four placements, in the order of the source.\<close>

definition place_event ::
  "jsdate \<Rightarrow> jsdate \<Rightarrow> jsdate \<Rightarrow> jsdate \<Rightarrow> event \<Rightarrow> buckets \<Rightarrow> js_error + buckets" where
  "place_event startOfMonth endOfMonth startOfWeek endOfWeek ev b =
     (case (if date_le startOfMonth (alertDate ev) \<and> date_le (alertDate ev) endOfMonth
            then month_put (monthDays b) (getDate (alertDate ev)) ev
            else Inr (monthDays b)) of
        Inl x \<Rightarrow> Inl x
      | Inr md \<Rightarrow>
          (case (if date_le startOfMonth (ev_when ev) \<and> date_le (ev_when ev) endOfMonth
                 then month_put (monthDueDays b) (getDate (ev_when ev)) ev
                 else Inr (monthDueDays b)) of
             Inl x \<Rightarrow> Inl x
           | Inr mdd \<Rightarrow>
               Inr \<lparr> monthDays = md, monthDueDays = mdd,
                     b_week =
                       (if date_le startOfWeek (ev_when ev) \<and> date_less (ev_when ev) endOfWeek
                        then (case week_index (ev_when ev) startOfWeek of
                                None \<Rightarrow> b_week b
                              | Some wi \<Rightarrow> week_put (b_week b) wi ev)
                        else b_week b),
                     b_weekAlerts =
                       (if date_le startOfWeek (alertDate ev) \<and> date_less (alertDate ev) endOfWeek
                        then (case week_index (alertDate ev) startOfWeek of
                                None \<Rightarrow> b_weekAlerts b
                              | Some wai \<Rightarrow> week_put (b_weekAlerts b) wai ev)
                        else b_weekAlerts b) \<rparr>))"

fun place_all ::
  "jsdate \<Rightarrow> jsdate \<Rightarrow> jsdate \<Rightarrow> jsdate \<Rightarrow> event list \<Rightarrow> buckets \<Rightarrow> js_error + buckets" where
  "place_all sm em sw ew [] b = Inr b"
| "place_all sm em sw ew (ev # evs) b =
     (case place_event sm em sw ew ev b of
        Inl x \<Rightarrow> Inl x
      | Inr b' \<Rightarrow> place_all sm em sw ew evs b')"

text \<open>
  The sort key of \<open>(a,b) => new Date(a.alertDate) - new Date(b.alertDate)\<close>.  The events
  sorted have passed \<open>ev.alertDate < realTodayStart\<close>, so their \<open>alertDate\<close> is valid; the
  value for an Invalid Date is never used.
\<close>

fun time_key :: "jsdate \<Rightarrow> int" where
  "time_key (At t) = t"
| "time_key Invalid = 0"

text \<open>
  \<open>filtered.filter(ev => ev.alertDate < realTodayStart).sort(...).slice(0,100)\<close>, with
  \<open>realTodayStart\<close> the start of the day of the clock.
\<close>

definition past_due :: "int \<Rightarrow> event list \<Rightarrow> event list" where
  "past_due clock filtered =
     (let realTodayStart = setHours (At clock) 0 0 0 0
      in take 100 (sort_key (\<lambda>ev. time_key (alertDate ev))
                     (filter (\<lambda>ev. date_less (alertDate ev) realTodayStart) filtered)))"

text \<open>
  \<open>buildAlerts({ cows, calves, settings, insems, confirmations }, anchorDate)\<close>.  The anchor
  is a \<open>Date\<close> or absent; \<open>clock\<close> is the reading of the clock (\<open>new Date()\<close>).
\<close>

definition buildAlerts ::
  "cow list \<Rightarrow> calf list \<Rightarrow> settings option \<Rightarrow> insemination list \<Rightarrow> confirmation list
     \<Rightarrow> jsdate option \<Rightarrow> int \<Rightarrow> js_error + alerts" where
  "buildAlerts cows calves sett insems confirmations anchorDate clock =
     (let now = (case anchorDate of None \<Rightarrow> At clock | Some a \<Rightarrow> a);
          startOfWeek = setHours (setDate now (opt_minus (getDate now) (getDay now))) 0 0 0 0;
          endOfWeek = shiftDays startOfWeek 7;
          startOfMonth = newDateYMD (getFullYear now) (getMonth now) 1;
          endOfMonth = setHours (newDateYMD (getFullYear now)
                                   (map_option (\<lambda>m. m + 1) (getMonth now)) 0) 23 59 59 999
      in case build_events cows calves sett insems clock of
           Inl x \<Rightarrow> Inl x
         | Inr events \<Rightarrow>
             (case filterActive events confirmations of
                Inl x \<Rightarrow> Inl x
              | Inr filtered \<Rightarrow>
                  (let weekDays = map (\<lambda>i. setHours (shiftDays startOfWeek i) 12 0 0 0) [0..6];
                       empty_week = map (\<lambda>d. \<lparr> wb_date = d, wb_items = [] \<rparr>) weekDays;
                       totalDays = getDate endOfMonth
                   in case place_all startOfMonth endOfMonth startOfWeek endOfWeek filtered
                             \<lparr> monthDays = empty_month totalDays,
                               monthDueDays = empty_month totalDays,
                               b_week = empty_week, b_weekAlerts = empty_week \<rparr> of
                        Inl x \<Rightarrow> Inl x
                      | Inr b \<Rightarrow>
                          Inr \<lparr> week = b_week b, weekAlerts = b_weekAlerts b,
                                month = \<lparr> mv_year = getFullYear now, mv_monthIndex = getMonth now,
                                          mv_days = monthDays b \<rparr>,
                                monthDue = \<lparr> mv_year = getFullYear now,
                                             mv_monthIndex = getMonth now,
                                             mv_days = monthDueDays b \<rparr>,
                                pastDue = past_due clock filtered \<rparr>)))"

section \<open>The default tables\<close>

text \<open>
  The settings document that the route \<open>GET /settings\<close> creates when none exists
  (\<open>new Settings({ gestationDays: 283, ... })\<close>).
\<close>

definition settingsSeed :: settings where
  "settingsSeed =
     \<lparr> gestationDays = Some 283, dryOffAfterSuccessfulInsemDays = Some 220,
       changeFeedAfterSuccessfulInsemDays = Some 260, postpartumInseminationStartDays = Some 60,
       inseminationIntervalDays = Some 90, calvingAlertBeforeDays = Some 10,
       dryOffAlertBeforeDays = Some 1, changeFeedAlertBeforeDays = Some 1,
       pregnancyCheckAlertBeforeDays = Some 3, inseminationAlertBeforeDays = Some 0,
       graduationAlertBeforeDays = Some 7, weaningAlertBeforeDays = Some 7,
       femaleWeaningDays = Some 180, maleWeaningDays = Some 180,
       femaleMaturityMonths = Some 24, maleMaturityMonths = Some 24 \<rparr>"

text \<open>The \<open>default\<close> values of \<open>cattleSettings\<close> in the Community schema (\<open>models/community.js\<close>).\<close>

definition cattleSettings :: settings where
  "cattleSettings =
     \<lparr> gestationDays = Some 283, dryOffAfterSuccessfulInsemDays = Some 220,
       changeFeedAfterSuccessfulInsemDays = Some 210, postpartumInseminationStartDays = Some 45,
       inseminationIntervalDays = Some 21, calvingAlertBeforeDays = Some 7,
       dryOffAlertBeforeDays = Some 7, changeFeedAlertBeforeDays = Some 7,
       pregnancyCheckAlertBeforeDays = Some 7, inseminationAlertBeforeDays = Some 7,
       graduationAlertBeforeDays = Some 30, weaningAlertBeforeDays = Some 7,
       femaleWeaningDays = Some 60, maleWeaningDays = Some 60,
       femaleMaturityMonths = Some 24, maleMaturityMonths = Some 24 \<rparr>"


text \<open>
  The value each parameter has for its consumer in the server (\<open>buildPregnancyInfo\<close>,
  \<open>buildAlerts\<close>, \<open>getCalfGraduationInfo\<close>), as one settings document: what
  \<open>timing_of\<close>, \<open>lead_of\<close>, \<open>weaningDays\<close> and \<open>maturityMonths\<close> resolve to.  For an absent
  document (\<open>None\<close>) these are the fallback defaults of the consumers.
\<close>

definition resolved :: "settings option \<Rightarrow> settings" where
  "resolved sett =
     \<lparr> gestationDays = Some (t_gestationDays (timing_of sett)),
       dryOffAfterSuccessfulInsemDays = Some (t_dryOffDays (timing_of sett)),
       changeFeedAfterSuccessfulInsemDays = Some (t_changeFeedDays (timing_of sett)),
       postpartumInseminationStartDays = Some (t_postpartumStartDays (timing_of sett)),
       inseminationIntervalDays = Some (t_retryIntervalDays (timing_of sett)),
       calvingAlertBeforeDays = Some (lead_calving (lead_of sett)),
       dryOffAlertBeforeDays = Some (lead_dryOff (lead_of sett)),
       changeFeedAlertBeforeDays = Some (lead_changeFeed (lead_of sett)),
       pregnancyCheckAlertBeforeDays = Some (lead_pregnancyCheck (lead_of sett)),
       inseminationAlertBeforeDays = Some (lead_insemination (lead_of sett)),
       graduationAlertBeforeDays = Some (lead_graduation (lead_of sett)),
       weaningAlertBeforeDays = Some (lead_weaning (lead_of sett)),
       femaleWeaningDays = Some (weaningDays sett ''female''),
       maleWeaningDays = Some (weaningDays sett ''male''),
       femaleMaturityMonths = Some (maturityMonths sett ''female''),
       maleMaturityMonths = Some (maturityMonths sett ''male'') \<rparr>"

text \<open>
  The fallback constants of the community dashboard (the route \<open>GET /dashboard\<close> of the
  community router: \<open>const settings = await Settings.findOne({ community }).lean() || {}\<close>
  and the eight lines after it), read with \<open>||\<close> from the same settings document.  \<open>weaningDays\<close> is the legacy
  field of that document, which the two weaning thresholds try before 180.
\<close>

record dashboard =
  dash_gestationDays :: int
  dash_postpartumDays :: int
  dash_inseminationIntervalDays :: int
  dash_femaleMaturityMonths :: int
  dash_maleMaturityMonths :: int
  dash_femaleWeaningDays :: int
  dash_maleWeaningDays :: int
  dash_calvingAlertDays :: int

definition dashboard_of :: "settings option \<Rightarrow> int option \<Rightarrow> dashboard" where
  "dashboard_of sett weaningDays_legacy =
     \<lparr> dash_gestationDays = or_default (opt_chain sett gestationDays) 283,
       dash_postpartumDays = or_default (opt_chain sett postpartumInseminationStartDays) 45,
       dash_inseminationIntervalDays = or_default (opt_chain sett inseminationIntervalDays) 21,
       dash_femaleMaturityMonths = or_default (opt_chain sett femaleMaturityMonths) 24,
       dash_maleMaturityMonths = or_default (opt_chain sett maleMaturityMonths) 24,
       dash_femaleWeaningDays =
         or_default (opt_chain sett femaleWeaningDays) (or_default weaningDays_legacy 180),
       dash_maleWeaningDays =
         or_default (opt_chain sett maleWeaningDays) (or_default weaningDays_legacy 180),
       dash_calvingAlertDays = or_default (opt_chain sett calvingAlertBeforeDays) 14 \<rparr>"

section \<open>Example documents\<close>

text \<open>
  The documents of the concrete scenarios: a cow without a recorded calving, the same cow
  with a calving on 2024-11-01, insemination records of 2024-01-01 in the three outcomes,
  and a settings document with \<open>gestationDays = 283\<close>,
  \<open>dryOffAfterSuccessfulInsemDays = 220\<close>, \<open>postpartumInseminationStartDays = 45\<close> and
  \<open>inseminationIntervalDays = 21\<close>.
\<close>

definition cow_a :: cow where
  "cow_a = \<lparr> cow_id = ''65a1f0c2e4b0a1b2c3d4e5f6'', cowNumber = Some ''114'',
             cowName = Some ''Daisy'', lastCalving = None \<rparr>"

definition cow_calved :: cow where
  "cow_calved = cow_a\<lparr> lastCalving := Some (utc 2024 11 1) \<rparr>"

definition insem_pending :: insemination where
  "insem_pending = \<lparr> ins_id = ''65a1f0c2e4b0a1b2c3d4e601'', cowId = ''65a1f0c2e4b0a1b2c3d4e5f6'',
                     date = utc 2024 1 1, confirmedPregnant = False, failed = False,
                     forced = False \<rparr>"

definition insem_confirmed :: insemination where
  "insem_confirmed = insem_pending\<lparr> confirmedPregnant := True \<rparr>"

definition insem_failed :: insemination where
  "insem_failed = insem_pending\<lparr> failed := True \<rparr>"

text \<open>
  The cow with a calving on 2023-06-01, before the inseminations of the examples, and a
  record of 2024-01-01 as the import route stores it from an upload that has both
  \<open>confirmedPregnant\<close> and \<open>failed\<close> set.
\<close>

definition cow_postpartum :: cow where
  "cow_postpartum = cow_a\<lparr> lastCalving := Some (utc 2023 6 1) \<rparr>"


definition settings_doc :: settings where
  "settings_doc =
     \<lparr> gestationDays = Some 283, dryOffAfterSuccessfulInsemDays = Some 220,
       changeFeedAfterSuccessfulInsemDays = None, postpartumInseminationStartDays = Some 45,
       inseminationIntervalDays = Some 21, calvingAlertBeforeDays = None,
       dryOffAlertBeforeDays = None, changeFeedAlertBeforeDays = None,
       pregnancyCheckAlertBeforeDays = None, inseminationAlertBeforeDays = None,
       graduationAlertBeforeDays = None, weaningAlertBeforeDays = None,
       femaleWeaningDays = None, maleWeaningDays = None,
       femaleMaturityMonths = Some 24, maleMaturityMonths = None \<rparr>"

text \<open>
  An event due 2024-03-05T23:00:00Z and a confirmation of 2024-03-05T00:10:00Z for the same
  cow and milestone type; the same pair moved to 5 and 20 January of the year 10000.
\<close>

definition ev_jitter :: event where
  "ev_jitter = \<lparr> ev_when = At (utc 2024 3 5 + 23 * 3600000),
                  alertDate = At (utc 2024 3 4 + 23 * 3600000),
                  ev_type = ''dryOff'', label = ''Dry-Off'',
                  entity = \<lparr> ent_type = ''cow'', ent_id = ''65a1f0c2e4b0a1b2c3d4e5f6'',
                             ent_name = ''Daisy'' \<rparr>,
                  meta = EmptyMeta \<rparr>"

definition conf_jitter :: confirmation where
  "conf_jitter = \<lparr> conf_id = ''65b2a0c2e4b0a1b2c3d4e700'', entityType = ''cow'',
                    entityId = ''65a1f0c2e4b0a1b2c3d4e5f6'', conf_type = ''dryOff'',
                    conf_when = utc 2024 3 5 + 10 * 60000, undone = False \<rparr>"

definition ev_far :: event where
  "ev_far = ev_jitter\<lparr> ev_when := At (utc 10000 1 5), alertDate := At (utc 10000 1 4) \<rparr>"

definition conf_far :: confirmation where
  "conf_far = conf_jitter\<lparr> conf_when := utc 10000 1 20 \<rparr>"

text \<open>
  A confirmed insemination of 1 April 9999 (calving is then due 283 days later, on
  9 January 10000) and a confirmation of a calving of that cow dated 25 January 10000.
\<close>

definition insem_9999 :: insemination where
  "insem_9999 = insem_confirmed\<lparr> date := utc 9999 4 1 \<rparr>"

definition conf_calving_10000 :: confirmation where
  "conf_calving_10000 =
     \<lparr> conf_id = ''65b2a0c2e4b0a1b2c3d4e701'', entityType = ''cow'',
       entityId = ''65a1f0c2e4b0a1b2c3d4e5f6'', conf_type = ''calving'',
       conf_when = utc 10000 1 25, undone = False \<rparr>"

text \<open>
  A female calf born on 2024-01-01 that died, and the same calf alive; a calf born on
  1 January 150000, and a clock 9504000000000001 ms before that calf's graduation date.
\<close>

definition calf_lost :: calf where
  "calf_lost = \<lparr> calf_id = ''65c3b0c2e4b0a1b2c3d4e800'', calfName = Some ''Bella'',
                 birthDate = Some (utc 2024 1 1), gender = Some ''female'',
                 calf_status = ''died'', graduated = False \<rparr>"

definition calf_alive :: calf where
  "calf_alive = calf_lost\<lparr> calf_status := ''alive'' \<rparr>"

definition calf_far :: calf where
  "calf_far = calf_alive\<lparr> birthDate := Some (utc 150000 1 1) \<rparr>"

definition clock_far :: int where
  "clock_far = utc 150002 1 1 - 9504000000000001"

section \<open>Properties of the calendar functions\<close>

lemma div_bounds:
  fixes a :: int
  assumes "0 < k"
  shows "k * (a div k) \<le> a" and "a < k * (a div k) + k"
proof -
  have "a = k * (a div k) + a mod k" by simp
  moreover have "0 \<le> a mod k" "a mod k < k" using assms by simp_all
  ultimately show "k * (a div k) \<le> a" and "a < k * (a div k) + k" by linarith+
qed

lemma dayFromYear_upper: "400 * dayFromYear y \<le> 146097 * y - 287810501"
proof -
  define A B C where "A = (y - 1969) div 4" and "B = (y - 1901) div 100"
    and "C = (y - 1601) div 400"
  have "4 * A \<le> y - 1969" unfolding A_def by (rule div_bounds) simp
  moreover have "y - 1901 < 100 * B + 100" unfolding B_def by (rule div_bounds) simp
  moreover have "400 * C \<le> y - 1601" unfolding C_def by (rule div_bounds) simp
  moreover have "dayFromYear y = 365 * y - 719050 + A - B + C"
    by (simp add: dayFromYear_def A_def B_def C_def)
  ultimately show ?thesis by linarith
qed

lemma dayFromYear_lower: "146097 * y - 287811596 \<le> 400 * dayFromYear y"
proof -
  define A B C where "A = (y - 1969) div 4" and "B = (y - 1901) div 100"
    and "C = (y - 1601) div 400"
  have "y - 1969 < 4 * A + 4" unfolding A_def by (rule div_bounds) simp
  moreover have "100 * B \<le> y - 1901" unfolding B_def by (rule div_bounds) simp
  moreover have "y - 1601 < 400 * C + 400" unfolding C_def by (rule div_bounds) simp
  moreover have "dayFromYear y = 365 * y - 719050 + A - B + C"
    by (simp add: dayFromYear_def A_def B_def C_def)
  ultimately show ?thesis by linarith
qed

text \<open>\<open>yearFromDay\<close> is the year of the day, as the specification's \<open>YearFromTime\<close> requires.\<close>

lemma yearFromDay_bracket:
  "dayFromYear (yearFromDay d) \<le> d \<and> d < dayFromYear (yearFromDay d + 1)"
proof -
  define q where "q = (400 * d) div 146097"
  define y where "y = 1970 + q"
  have q1: "146097 * q \<le> 400 * d" unfolding q_def by (rule div_bounds) simp
  have q2: "400 * d < 146097 * q + 146097" unfolding q_def by (rule div_bounds) simp
  have yq: "146097 * y = 146097 * q + 287811090" by (simp add: y_def)
  have lo: "400 * dayFromYear (y - 1) \<le> 146097 * y - 146097 - 287810501"
    using dayFromYear_upper [of "y - 1"] by (simp add: algebra_simps)
  have hi: "146097 * y + 292194 - 287811596 \<le> 400 * dayFromYear (y + 2)"
    using dayFromYear_lower [of "y + 2"] by (simp add: algebra_simps)
  have a: "dayFromYear (y - 1) \<le> d"
    using lo q1 yq by linarith
  have b: "d < dayFromYear (y + 2)"
    using hi q2 yq by linarith
  have yfd: "yearFromDay d =
      (if d < dayFromYear y then y - 1 else if dayFromYear (y + 1) \<le> d then y + 1 else y)"
    by (simp add: yearFromDay_def Let_def q_def y_def)
  show ?thesis
  proof (cases "d < dayFromYear y")
    case True
    then show ?thesis using a by (simp add: yfd)
  next
    case False
    show ?thesis
    proof (cases "dayFromYear (y + 1) \<le> d")
      case True
      have "y + 1 + 1 = y + 2" by simp
      then have "d < dayFromYear (y + 1 + 1)" using b by metis
      moreover have "yearFromDay d = y + 1"
        using True False by (simp only: yfd if_False if_True)
      ultimately show ?thesis using True by metis
    next
      case F2: False
      then show ?thesis using False by (simp add: yfd)
    qed
  qed
qed

lemma div_succ:
  fixes a k :: int
  assumes "0 < k"
  shows "(a + 1) div k = a div k + (if (a + 1) mod k = 0 then 1 else 0)"
proof -
  define q r where "q = a div k" and "r = a mod k"
  have a: "a = k * q + r" by (simp add: q_def r_def)
  have r: "0 \<le> r" "r < k" using assms by (simp_all add: r_def)
  show ?thesis
  proof (cases "r = k - 1")
    case True
    then have "a + 1 = k * (q + 1) + 0" using a by (simp add: algebra_simps)
    then have "(a + 1) div k = q + 1" "(a + 1) mod k = 0"
      using assms int_div_pos_eq [of "a + 1" k "q + 1" 0] int_mod_pos_eq [of "a + 1" k "q + 1" 0]
      by simp_all
    then show ?thesis by (simp add: q_def)
  next
    case False
    then have lt: "0 \<le> r + 1" "r + 1 < k" using r by linarith+
    have "a + 1 = k * q + (r + 1)" using a by simp
    then have "(a + 1) div k = q" "(a + 1) mod k = r + 1"
      using lt int_div_pos_eq [of "a + 1" k q "r + 1"] int_mod_pos_eq [of "a + 1" k q "r + 1"]
      by simp_all
    then show ?thesis using r by (simp add: q_def)
  qed
qed

lemma mod_shift:
  fixes y :: int
  shows "(y - k * c) mod k = y mod k"
  using mod_mult_self2 [of y k "- c"] by simp

lemma leap_mods:
  fixes y :: int
  shows "(y - 1968) mod 4 = y mod 4" and "(y - 1900) mod 100 = y mod 100"
    and "(y - 1600) mod 400 = y mod 400"
  using mod_shift [of y 4 492] mod_shift [of y 100 19] mod_shift [of y 400 4] by simp_all

lemma leap_dvd:
  fixes y :: int
  shows "y mod 100 = 0 \<Longrightarrow> y mod 4 = 0" and "y mod 400 = 0 \<Longrightarrow> y mod 100 = 0"
proof -
  have "(4::int) dvd 100" "(100::int) dvd 400" by simp_all
  then show "y mod 100 = 0 \<Longrightarrow> y mod 4 = 0" and "y mod 400 = 0 \<Longrightarrow> y mod 100 = 0"
    by (meson dvd_trans mod_eq_0_iff_dvd)+
qed

text \<open>A year has 365 days, or 366 when it is a leap year.\<close>

lemma dayFromYear_Suc: "dayFromYear (y + 1) = dayFromYear y + 365 + inLeapYear y"
proof -
  have e4: "(y + 1 - 1969) div 4 = (y - 1969) div 4 + (if y mod 4 = 0 then 1 else 0)"
    using div_succ [of 4 "y - 1969"] leap_mods(1) [of y] by (simp add: algebra_simps)
  have e100: "(y + 1 - 1901) div 100 = (y - 1901) div 100 + (if y mod 100 = 0 then 1 else 0)"
    using div_succ [of 100 "y - 1901"] leap_mods(2) [of y] by (simp add: algebra_simps)
  have e400: "(y + 1 - 1601) div 400 = (y - 1601) div 400 + (if y mod 400 = 0 then 1 else 0)"
    using div_succ [of 400 "y - 1601"] leap_mods(3) [of y] by (simp add: algebra_simps)
  show ?thesis
    unfolding dayFromYear_def inLeapYear_def e4 e100 e400
    using leap_dvd [of y] by auto
qed

lemma inLeapYear_range: "inLeapYear y = 0 \<or> inLeapYear y = 1"
  by (simp add: inLeapYear_def)

lemma dayWithinYear_range:
  "0 \<le> dayWithinYear d \<and> dayWithinYear d < 365 + inLeapYear (yearFromDay d)"
  using yearFromDay_bracket [of d] dayFromYear_Suc [of "yearFromDay d"]
  by (simp add: dayWithinYear_def)

lemma monthFromDay_range: "0 \<le> monthFromDay d \<and> monthFromDay d \<le> 11"
  by (simp add: monthFromDay_def Let_def)

lemma dateFromDay_range: "1 \<le> dateFromDay d \<and> dateFromDay d \<le> 31"
proof -
  define w l where "w = dayWithinYear d" and "l = inLeapYear (yearFromDay d)"
  have w: "0 \<le> w" "w < 365 + l" using dayWithinYear_range [of d] by (simp_all add: w_def l_def)
  have l: "l = 0 \<or> l = 1" using inLeapYear_range by (simp add: l_def)
  have "dateFromDay d = w - monthStart (monthFromDay d) l + 1"
    by (simp add: dateFromDay_def w_def l_def)
  moreover have "monthFromDay d =
     (if w < 31 then 0 else if w < 59 + l then 1 else if w < 90 + l then 2
      else if w < 120 + l then 3 else if w < 151 + l then 4 else if w < 181 + l then 5
      else if w < 212 + l then 6 else if w < 243 + l then 7 else if w < 273 + l then 8
      else if w < 304 + l then 9 else if w < 334 + l then 10 else 11)"
    by (simp add: monthFromDay_def Let_def w_def l_def)
  ultimately show ?thesis using w l by (auto simp: monthStart_def)
qed

text \<open>A day number is determined by its year, month and date.\<close>

lemma day_from_civil:
  "d = dayFromYear (yearFromDay d) +
       monthStart (monthFromDay d) (inLeapYear (yearFromDay d)) + dateFromDay d - 1"
  by (simp add: dateFromDay_def dayWithinYear_def)

text \<open>\<open>x.setDate(x.getDate() + n)\<close> moves a valid date by \<open>n\<close> whole days.\<close>

lemma shiftDays_At: "shiftDays (At t) n = timeClip (t + n * msPerDay)"
proof -
  have m: "0 \<le> monthFromDay (day_of t)" "monthFromDay (day_of t) \<le> 11"
    using monthFromDay_range by auto
  then have "monthFromDay (day_of t) div 12 = 0"
    and "monthFromDay (day_of t) mod 12 = monthFromDay (day_of t)"
    by auto
  then have "makeDay (yearFromDay (day_of t)) (monthFromDay (day_of t))
               (dateFromDay (day_of t) + n) = day_of t + n"
    by (simp add: makeDay_def Let_def dateFromDay_def dayWithinYear_def)
  moreover have "(day_of t + n) * msPerDay + timeWithinDay t = t + n * msPerDay"
    by (simp add: day_of_def timeWithinDay_def algebra_simps)
  ultimately show ?thesis
    by (simp add: shiftDays_def makeDate_def)
qed

lemma shiftDays_Invalid: "shiftDays Invalid n = Invalid"
  by (simp add: shiftDays_def)

section \<open>Properties of \<open>buildPregnancyInfo\<close>\<close>

text \<open>The latest record is a record of the cow with the greatest date.\<close>

lemma latest_of_sort_key:
  assumes "latest_of (sort_key f ys) = Some l"
  shows "l \<in> set ys \<and> (\<forall>r \<in> set ys. f l \<le> f r)"
proof -
  from assms obtain rest where eq: "sort_key f ys = l # rest"
    by (auto simp: latest_of_def split: list.splits)
  have "set (sort_key f ys) = set ys" by simp
  with eq have s: "set ys = insert l (set rest)" by simp
  have "sorted (map f (sort_key f ys))" by (rule sorted_sort_key)
  with eq have "\<forall>x \<in> set rest. f l \<le> f x" by simp
  with s show ?thesis by auto
qed

lemma latest_of_allRecords:
  assumes "latest_of (allRecords c insems) = Some l"
  shows "l \<in> set insems" and "cowId l = cow_id c"
    and "r \<in> set insems \<Longrightarrow> cowId r = cow_id c \<Longrightarrow> date r \<le> date l"
  using latest_of_sort_key [OF assms [unfolded allRecords_def]] by auto

lemma latest_of_allRecords_None:
  "latest_of (allRecords c insems) = None \<longleftrightarrow> (\<forall>r \<in> set insems. cowId r \<noteq> cow_id c)"
proof -
  have "latest_of (allRecords c insems) = None \<longleftrightarrow> allRecords c insems = []"
    by (simp add: latest_of_def split: list.splits)
  also have "\<dots> \<longleftrightarrow> set (allRecords c insems) = {}" by simp
  also have "\<dots> \<longleftrightarrow> (\<forall>r \<in> set insems. cowId r \<noteq> cow_id c)"
    unfolding allRecords_def by (auto simp: filter_empty_conv)
  finally show ?thesis .
qed

text \<open>
  \<open>buildAlerts\<close> hands \<open>buildPregnancyInfo\<close> the records of the cow already sorted; sorting
  them again changes nothing.
\<close>

lemma allRecords_idem: "allRecords c (allRecords c insems) = allRecords c insems"
proof -
  let ?ys = "sort_key (\<lambda>r. - date r) (filter (\<lambda>r. cowId r = cow_id c) insems)"
  have "filter (\<lambda>r. cowId r = cow_id c) ?ys = ?ys"
    by (rule filter_True) simp
  moreover have "sort_key (\<lambda>r. - date r) ?ys = ?ys"
    by (rule sort_key_id_if_sorted) (rule sorted_sort_key)
  ultimately show ?thesis by (simp add: allRecords_def)
qed

lemma buildPregnancyInfo_sorted_records:
  "buildPregnancyInfo (Some c) sett (allRecords c insems) clock =
   buildPregnancyInfo (Some c) sett insems clock"
  by (simp add: buildPregnancyInfo_def allRecords_idem)

text \<open>
  The four routes of the cow profile never write a record that is both confirmed pregnant
  and failed; the import and restore routes store whatever flags they are given, so every
  combination of the two flags can be stored.
\<close>

lemma route_flags_exclusive:
  "\<not> (confirmedPregnant (new_attempt i c d f) \<and> failed (new_attempt i c d f))"
  "\<not> (confirmedPregnant (mark_confirmed r) \<and> failed (mark_confirmed r))"
  "\<not> (confirmedPregnant (mark_unconfirmed r) \<and> failed (mark_unconfirmed r))"
  "\<not> (confirmedPregnant (mark_failed r) \<and> failed (mark_failed r))"
  by (simp_all add: new_attempt_def mark_confirmed_def mark_unconfirmed_def mark_failed_def)

lemma stored_every: "stored r"
proof -
  have "r = import_record (ins_id r) (cowId r) (date r) (confirmedPregnant r) (failed r) (forced r)"
    by (simp add: import_record_def)
  then show ?thesis using stored.by_import by metis
qed

lemmas bpi_defs = buildPregnancyInfo_def Let_def latest_branch_def reopen_def postpartum_def
  finish_def initial_repro_def

lemmas example_defs = cow_a_def cow_calved_def insem_pending_def insem_confirmed_def
  insem_failed_def settings_doc_def

lemma latest_single: "cowId e = cow_id c \<Longrightarrow> latest_of (allRecords c [e]) = Some e"
  by (simp add: latest_of_def allRecords_def)

lemma utc_values:
  "utc 2024 1 1 = 1704067200000" "utc 2024 10 10 = 1728518400000"
  "utc 2024 8 8 = 1723075200000" "utc 2024 1 22 = 1705881600000"
  "utc 2024 11 1 = 1730419200000" "utc 2024 3 1 = 1709251200000"
  by (simp_all add: utc_def makeDay_def makeDate_def dayFromYear_def monthStart_def
      inLeapYear_def msPerDay_def)

text \<open>
  Claim C1 (reopening rule).  When the latest insemination record of a cow is confirmed
  pregnant and the cow's \<open>lastCalving\<close> exists and is strictly after the date of that
  record, \<open>buildPregnancyInfo\<close> returns the state \<open>Open\<close> with \<open>conceptionDate\<close>,
  \<open>estCalving\<close>, \<open>dryOffDate\<close> and \<open>changeFeedDate\<close> all \<open>null\<close>, whatever the other
  records, the settings and the clock are.
\<close>

theorem reopening_rule:
  assumes "latest_of (allRecords c insems) = Some l"
    and "confirmedPregnant l"
    and "lastCalving c = Some lc"
    and "date l < lc"
  shows "\<exists>r. buildPregnancyInfo (Some c) sett insems clock = Inr r \<and> status r = ''Open'' \<and>
           conceptionDate r = None \<and> estCalving r = None \<and> dryOffDate r = None \<and>
           changeFeedDate r = None"
  using assms by (simp add: bpi_defs)

text \<open>
  The rule at a cow that calved on 2024-11-01, with a confirmed insemination of 2024-01-01
  and an older pending one.
\<close>

theorem reopening_rule_witness:
  "\<exists>r. buildPregnancyInfo (Some cow_calved) (Some settings_doc)
          [insem_confirmed, insem_pending\<lparr> date := utc 2023 1 1 \<rparr>] (utc 2024 3 1) = Inr r \<and>
        status r = ''Open'' \<and> conceptionDate r = None \<and> estCalving r = None \<and>
        dryOffDate r = None \<and> changeFeedDate r = None"
proof -
  have h1: "latest_of (allRecords cow_calved [insem_confirmed, insem_pending\<lparr> date := utc 2023 1 1 \<rparr>])
              = Some insem_confirmed"
    by (simp add: latest_of_def allRecords_def example_defs utc_def makeDay_def makeDate_def dayFromYear_def monthStart_def
      inLeapYear_def msPerDay_def)
  have h2: "confirmedPregnant insem_confirmed" by (simp add: example_defs)
  have h3: "lastCalving cow_calved = Some (utc 2024 11 1)" by (simp add: example_defs)
  have h4: "date insem_confirmed < utc 2024 11 1" by (simp add: example_defs utc_values)
  show ?thesis using reopening_rule [OF h1 h2 h3 h4] .
qed




text \<open>
  What \<open>buildPregnancyInfo\<close> returns, for every cow, settings document (or none), list of
  records and clock: it returns (it does not throw); the state is one of \<open>Open\<close>,
  \<open>Pending\<close>, \<open>Pregnant\<close>; the four pregnancy dates are non-null exactly in the state
  \<open>Pregnant\<close> (the confirmed branch, not reopened) and \<open>retryWindowEnd\<close> exactly in the state
  \<open>Pending\<close>.  \<open>nextInseminationEarliest\<close> is non-null when the failed branch was taken, and
  also whenever the cow has a \<open>lastCalving\<close>: the postpartum block runs whatever the state
  is.
\<close>

lemma buildPregnancyInfo_fields:
  "\<exists>r. buildPregnancyInfo (Some c) sett insems clock = Inr r \<and>
     status r \<in> {''Open'', ''Pending'', ''Pregnant''} \<and>
     (status r = ''Pregnant'' \<longleftrightarrow>
        (case latest_of (allRecords c insems) of None \<Rightarrow> False
         | Some l \<Rightarrow> confirmedPregnant l \<and>
             (case lastCalving c of None \<Rightarrow> True | Some lc \<Rightarrow> lc \<le> date l))) \<and>
     (status r = ''Pending'' \<longleftrightarrow>
        (case latest_of (allRecords c insems) of None \<Rightarrow> False
         | Some l \<Rightarrow> \<not> confirmedPregnant l \<and> \<not> failed l)) \<and>
     (conceptionDate r \<noteq> None \<longleftrightarrow> status r = ''Pregnant'') \<and>
     (estCalving r \<noteq> None \<longleftrightarrow> status r = ''Pregnant'') \<and>
     (dryOffDate r \<noteq> None \<longleftrightarrow> status r = ''Pregnant'') \<and>
     (changeFeedDate r \<noteq> None \<longleftrightarrow> status r = ''Pregnant'') \<and>
     (retryWindowEnd r \<noteq> None \<longleftrightarrow> status r = ''Pending'') \<and>
     (nextInseminationEarliest r \<noteq> None \<longleftrightarrow>
        (case latest_of (allRecords c insems) of None \<Rightarrow> False
         | Some l \<Rightarrow> \<not> confirmedPregnant l \<and> failed l) \<or> lastCalving c \<noteq> None)"
  by (cases "latest_of (allRecords c insems)"; cases "lastCalving c")
     (auto simp: bpi_defs)

text \<open>
  Claim C5 at a cow that calved on 2023-06-01 and whose latest record, of 2024-01-01, is
  confirmed pregnant.  The state is \<open>Pregnant\<close>, and \<open>nextInseminationEarliest\<close> is set all
  the same, to 2023-07-31 (the calving plus the 60 postpartum days), although no branch of the
  state derivation that sets it was taken: the block that the source comments as "Next
  insemination earliest based on last calving when open" does not test the state.  The same
  happens in the state \<open>Pending\<close>.  \<open>buildAlerts\<close> then reports a past-due "Earliest
  insemination" for the pregnant cow.
\<close>

theorem pregnant_cow_next_insemination:
  "(\<exists>r. buildPregnancyInfo (Some cow_postpartum) None [insem_confirmed] (utc 2024 3 1) = Inr r \<and>
        status r = ''Pregnant'' \<and> nextInseminationEarliest r = Some (At (utc 2023 7 31))) \<and>
   (\<exists>r. buildPregnancyInfo (Some cow_postpartum) None [insem_pending] (utc 2024 3 1) = Inr r \<and>
        status r = ''Pending'' \<and> nextInseminationEarliest r = Some (At (utc 2023 7 31))) \<and>
   (\<exists>a. buildAlerts [cow_postpartum] [] None [insem_confirmed] [] None (utc 2024 3 1) = Inr a \<and>
        map (\<lambda>e. (ev_type e, label e, ev_when e)) (pastDue a) =
          [(''insemination'', ''Earliest insemination'', At (utc 2023 7 31))])"
proof -
  have "case buildPregnancyInfo (Some cow_postpartum) None [insem_confirmed] (utc 2024 3 1) of
          Inr r \<Rightarrow> status r = ''Pregnant'' \<and> nextInseminationEarliest r = Some (At (utc 2023 7 31))
        | Inl x \<Rightarrow> False"
    by code_simp
  then have a: "\<exists>r. buildPregnancyInfo (Some cow_postpartum) None [insem_confirmed] (utc 2024 3 1) = Inr r \<and>
        status r = ''Pregnant'' \<and> nextInseminationEarliest r = Some (At (utc 2023 7 31))"
    by (cases "buildPregnancyInfo (Some cow_postpartum) None [insem_confirmed] (utc 2024 3 1)") simp_all
  have "case buildPregnancyInfo (Some cow_postpartum) None [insem_pending] (utc 2024 3 1) of
          Inr r \<Rightarrow> status r = ''Pending'' \<and> nextInseminationEarliest r = Some (At (utc 2023 7 31))
        | Inl x \<Rightarrow> False"
    by code_simp
  then have b: "\<exists>r. buildPregnancyInfo (Some cow_postpartum) None [insem_pending] (utc 2024 3 1) = Inr r \<and>
        status r = ''Pending'' \<and> nextInseminationEarliest r = Some (At (utc 2023 7 31))"
    by (cases "buildPregnancyInfo (Some cow_postpartum) None [insem_pending] (utc 2024 3 1)") simp_all
  have "case buildAlerts [cow_postpartum] [] None [insem_confirmed] [] None (utc 2024 3 1) of
          Inr a \<Rightarrow> map (\<lambda>e. (ev_type e, label e, ev_when e)) (pastDue a) =
            [(''insemination'', ''Earliest insemination'', At (utc 2023 7 31))]
        | Inl x \<Rightarrow> False"
    by code_simp
  then have c: "\<exists>a. buildAlerts [cow_postpartum] [] None [insem_confirmed] [] None (utc 2024 3 1) = Inr a \<and>
        map (\<lambda>e. (ev_type e, label e, ev_when e)) (pastDue a) =
          [(''insemination'', ''Earliest insemination'', At (utc 2023 7 31))]"
    by (cases "buildAlerts [cow_postpartum] [] None [insem_confirmed] [] None (utc 2024 3 1)") simp_all
  show ?thesis using a b c by (intro conjI)
qed

text \<open>
  The failed branch.  When the latest record is failed and not confirmed pregnant, the state
  is \<open>Open\<close> and \<open>nextInseminationEarliest\<close> is the date of the record plus the retry
  interval, replaced by \<open>lastCalving\<close> plus the postpartum days when the cow has a
  \<open>lastCalving\<close> and that date is later: for valid dates, the maximum of the two.
\<close>

lemma failed_branch_next_insemination:
  assumes "latest_of (allRecords c insems) = Some l"
    and "\<not> confirmedPregnant l"
    and "failed l"
  shows "\<exists>r. buildPregnancyInfo (Some c) sett insems clock = Inr r \<and> status r = ''Open'' \<and>
           nextInseminationEarliest r =
             Some (case lastCalving c of
                     None \<Rightarrow> timeClip (date l + t_retryIntervalDays (timing_of sett) * msPerDay)
                   | Some lc \<Rightarrow>
                       if date_less (timeClip (date l + t_retryIntervalDays (timing_of sett) * msPerDay))
                                    (timeClip (lc + t_postpartumStartDays (timing_of sett) * msPerDay))
                       then timeClip (lc + t_postpartumStartDays (timing_of sett) * msPerDay)
                       else timeClip (date l + t_retryIntervalDays (timing_of sett) * msPerDay)) \<and>
           (case lastCalving c of
              None \<Rightarrow> True
            | Some lc \<Rightarrow>
                if \<bar>date l + t_retryIntervalDays (timing_of sett) * msPerDay\<bar> \<le> 8640000000000000 \<and>
                   \<bar>lc + t_postpartumStartDays (timing_of sett) * msPerDay\<bar> \<le> 8640000000000000
                then nextInseminationEarliest r =
                       Some (At (max (date l + t_retryIntervalDays (timing_of sett) * msPerDay)
                                     (lc + t_postpartumStartDays (timing_of sett) * msPerDay)))
                else True)"
  using assms by (cases "lastCalving c") (auto simp: bpi_defs shiftDays_At timeClip_def)

text \<open>
  The concrete scenario: a failed record of 2024-01-01, no \<open>lastCalving\<close>,
  \<open>inseminationIntervalDays = 21\<close> gives 2024-01-22; with a calving on 2024-11-01 and
  \<open>postpartumInseminationStartDays = 45\<close> the postpartum date 2024-12-16 is the later one.
\<close>

lemma failed_branch_examples:
  "(\<exists>r. buildPregnancyInfo (Some cow_a) (Some settings_doc) [insem_failed] (utc 2024 3 1) = Inr r \<and>
      status r = ''Open'' \<and> nextInseminationEarliest r = Some (At (utc 2024 1 22))) \<and>
   (\<exists>r. buildPregnancyInfo (Some cow_calved) (Some settings_doc) [insem_failed] (utc 2024 3 1) = Inr r \<and>
      status r = ''Open'' \<and> nextInseminationEarliest r = Some (At (utc 2024 12 16)))"
proof -
  have h1: "latest_of (allRecords cow_a [insem_failed]) = Some insem_failed"
    "latest_of (allRecords cow_calved [insem_failed]) = Some insem_failed"
    by (rule latest_single, simp add: example_defs)+
  have h2: "\<not> confirmedPregnant insem_failed" and h3: "failed insem_failed"
    by (simp_all add: example_defs)
  have g: "t_retryIntervalDays (timing_of (Some settings_doc)) = 21"
    "t_postpartumStartDays (timing_of (Some settings_doc)) = 45"
    by (simp_all add: timing_of_def or_default_def opt_chain_def settings_doc_def)
  have d: "date insem_failed = utc 2024 1 1" "lastCalving cow_a = None"
    "lastCalving cow_calved = Some (utc 2024 11 1)"
    by (simp_all add: example_defs)
  have u: "utc 2024 12 16 = 1734307200000"
    by (simp add: utc_def makeDay_def makeDate_def dayFromYear_def monthStart_def
      inLeapYear_def msPerDay_def)
  have a: "\<exists>r. buildPregnancyInfo (Some cow_a) (Some settings_doc) [insem_failed] (utc 2024 3 1) = Inr r \<and>
      status r = ''Open'' \<and> nextInseminationEarliest r = Some (At (utc 2024 1 22))"
    using failed_branch_next_insemination [OF h1(1) h2 h3, of "Some settings_doc" "utc 2024 3 1"]
    by (auto simp: g d utc_values timeClip_def msPerDay_def)
  have b: "\<exists>r. buildPregnancyInfo (Some cow_calved) (Some settings_doc) [insem_failed] (utc 2024 3 1) = Inr r \<and>
      status r = ''Open'' \<and> nextInseminationEarliest r = Some (At (utc 2024 12 16))"
    using failed_branch_next_insemination [OF h1(2) h2 h3, of "Some settings_doc" "utc 2024 3 1"]
    by (auto simp: g d u utc_values timeClip_def msPerDay_def)
  show ?thesis using a b by simp
qed


text \<open>
  Claim C10.  In \<open>buildPregnancyInfo\<close> each of the five core timing parameters, when it is
  present and equal to 0, resolves to its default (283, 220, 260, 60, 90), and the whole
  result equals the result with the parameter absent.  In \<open>buildAlerts\<close> an alert lead time
  of 0 is kept as 0 (the default, such as 10 for calving, is used only when the value is
  absent), so the alert date of the event is its due date.
\<close>

theorem zero_setting_handling:
  "timing_of (Some (s\<lparr> gestationDays := Some 0 \<rparr>)) = timing_of (Some (s\<lparr> gestationDays := None \<rparr>)) \<and>
   t_gestationDays (timing_of (Some (s\<lparr> gestationDays := Some 0 \<rparr>))) = 283 \<and>
   t_dryOffDays (timing_of (Some (s\<lparr> dryOffAfterSuccessfulInsemDays := Some 0 \<rparr>))) = 220 \<and>
   t_changeFeedDays (timing_of (Some (s\<lparr> changeFeedAfterSuccessfulInsemDays := Some 0 \<rparr>))) = 260 \<and>
   t_postpartumStartDays (timing_of (Some (s\<lparr> postpartumInseminationStartDays := Some 0 \<rparr>))) = 60 \<and>
   t_retryIntervalDays (timing_of (Some (s\<lparr> inseminationIntervalDays := Some 0 \<rparr>))) = 90 \<and>
   buildPregnancyInfo cw (Some (s\<lparr> gestationDays := Some 0 \<rparr>)) insems clock =
     buildPregnancyInfo cw (Some (s\<lparr> gestationDays := None \<rparr>)) insems clock \<and>
   buildPregnancyInfo cw (Some (s\<lparr> dryOffAfterSuccessfulInsemDays := Some 0 \<rparr>)) insems clock =
     buildPregnancyInfo cw (Some (s\<lparr> dryOffAfterSuccessfulInsemDays := None \<rparr>)) insems clock \<and>
   buildPregnancyInfo cw (Some (s\<lparr> changeFeedAfterSuccessfulInsemDays := Some 0 \<rparr>)) insems clock =
     buildPregnancyInfo cw (Some (s\<lparr> changeFeedAfterSuccessfulInsemDays := None \<rparr>)) insems clock \<and>
   buildPregnancyInfo cw (Some (s\<lparr> postpartumInseminationStartDays := Some 0 \<rparr>)) insems clock =
     buildPregnancyInfo cw (Some (s\<lparr> postpartumInseminationStartDays := None \<rparr>)) insems clock \<and>
   buildPregnancyInfo cw (Some (s\<lparr> inseminationIntervalDays := Some 0 \<rparr>)) insems clock =
     buildPregnancyInfo cw (Some (s\<lparr> inseminationIntervalDays := None \<rparr>)) insems clock \<and>
   lead_calving (lead_of (Some (s\<lparr> calvingAlertBeforeDays := Some 0 \<rparr>))) = 0 \<and>
   lead_dryOff (lead_of (Some (s\<lparr> dryOffAlertBeforeDays := Some 0 \<rparr>))) = 0 \<and>
   lead_changeFeed (lead_of (Some (s\<lparr> changeFeedAlertBeforeDays := Some 0 \<rparr>))) = 0 \<and>
   lead_pregnancyCheck (lead_of (Some (s\<lparr> pregnancyCheckAlertBeforeDays := Some 0 \<rparr>))) = 0 \<and>
   lead_insemination (lead_of (Some (s\<lparr> inseminationAlertBeforeDays := Some 0 \<rparr>))) = 0 \<and>
   lead_graduation (lead_of (Some (s\<lparr> graduationAlertBeforeDays := Some 0 \<rparr>))) = 0 \<and>
   lead_weaning (lead_of (Some (s\<lparr> weaningAlertBeforeDays := Some 0 \<rparr>))) = 0 \<and>
   lead_calving (lead_of (Some (s\<lparr> calvingAlertBeforeDays := None \<rparr>))) = 10 \<and>
   push (lead_of (Some (s\<lparr> calvingAlertBeforeDays := Some 0 \<rparr>))) c (Some (At t)) ''calving'' lbl m [] =
     [\<lparr> ev_when = At t, alertDate = timeClip t, ev_type = ''calving'', label = lbl,
        entity = \<lparr> ent_type = ''cow'', ent_id = cow_id c,
                   ent_name = str_or (cowName c) (str_or (cowNumber c) ''Cow'') \<rparr>,
        meta = m \<rparr>]"
proof -
  have t: "timing_of (Some (s\<lparr> gestationDays := Some 0 \<rparr>)) = timing_of (Some (s\<lparr> gestationDays := None \<rparr>))"
    "timing_of (Some (s\<lparr> dryOffAfterSuccessfulInsemDays := Some 0 \<rparr>)) =
       timing_of (Some (s\<lparr> dryOffAfterSuccessfulInsemDays := None \<rparr>))"
    "timing_of (Some (s\<lparr> changeFeedAfterSuccessfulInsemDays := Some 0 \<rparr>)) =
       timing_of (Some (s\<lparr> changeFeedAfterSuccessfulInsemDays := None \<rparr>))"
    "timing_of (Some (s\<lparr> postpartumInseminationStartDays := Some 0 \<rparr>)) =
       timing_of (Some (s\<lparr> postpartumInseminationStartDays := None \<rparr>))"
    "timing_of (Some (s\<lparr> inseminationIntervalDays := Some 0 \<rparr>)) =
       timing_of (Some (s\<lparr> inseminationIntervalDays := None \<rparr>))"
    by (simp_all add: timing_of_def or_default_def opt_chain_def)
  have b: "buildPregnancyInfo cw (Some (s\<lparr> gestationDays := Some 0 \<rparr>)) insems clock =
       buildPregnancyInfo cw (Some (s\<lparr> gestationDays := None \<rparr>)) insems clock"
    "buildPregnancyInfo cw (Some (s\<lparr> dryOffAfterSuccessfulInsemDays := Some 0 \<rparr>)) insems clock =
       buildPregnancyInfo cw (Some (s\<lparr> dryOffAfterSuccessfulInsemDays := None \<rparr>)) insems clock"
    "buildPregnancyInfo cw (Some (s\<lparr> changeFeedAfterSuccessfulInsemDays := Some 0 \<rparr>)) insems clock =
       buildPregnancyInfo cw (Some (s\<lparr> changeFeedAfterSuccessfulInsemDays := None \<rparr>)) insems clock"
    "buildPregnancyInfo cw (Some (s\<lparr> postpartumInseminationStartDays := Some 0 \<rparr>)) insems clock =
       buildPregnancyInfo cw (Some (s\<lparr> postpartumInseminationStartDays := None \<rparr>)) insems clock"
    "buildPregnancyInfo cw (Some (s\<lparr> inseminationIntervalDays := Some 0 \<rparr>)) insems clock =
       buildPregnancyInfo cw (Some (s\<lparr> inseminationIntervalDays := None \<rparr>)) insems clock"
    unfolding buildPregnancyInfo_def t by (rule refl)+
  have d: "t_gestationDays (timing_of (Some (s\<lparr> gestationDays := Some 0 \<rparr>))) = 283"
    "t_dryOffDays (timing_of (Some (s\<lparr> dryOffAfterSuccessfulInsemDays := Some 0 \<rparr>))) = 220"
    "t_changeFeedDays (timing_of (Some (s\<lparr> changeFeedAfterSuccessfulInsemDays := Some 0 \<rparr>))) = 260"
    "t_postpartumStartDays (timing_of (Some (s\<lparr> postpartumInseminationStartDays := Some 0 \<rparr>))) = 60"
    "t_retryIntervalDays (timing_of (Some (s\<lparr> inseminationIntervalDays := Some 0 \<rparr>))) = 90"
    by (simp_all add: timing_of_def or_default_def opt_chain_def)
  have l: "lead_calving (lead_of (Some (s\<lparr> calvingAlertBeforeDays := Some 0 \<rparr>))) = 0"
    "lead_dryOff (lead_of (Some (s\<lparr> dryOffAlertBeforeDays := Some 0 \<rparr>))) = 0"
    "lead_changeFeed (lead_of (Some (s\<lparr> changeFeedAlertBeforeDays := Some 0 \<rparr>))) = 0"
    "lead_pregnancyCheck (lead_of (Some (s\<lparr> pregnancyCheckAlertBeforeDays := Some 0 \<rparr>))) = 0"
    "lead_insemination (lead_of (Some (s\<lparr> inseminationAlertBeforeDays := Some 0 \<rparr>))) = 0"
    "lead_graduation (lead_of (Some (s\<lparr> graduationAlertBeforeDays := Some 0 \<rparr>))) = 0"
    "lead_weaning (lead_of (Some (s\<lparr> weaningAlertBeforeDays := Some 0 \<rparr>))) = 0"
    "lead_calving (lead_of (Some (s\<lparr> calvingAlertBeforeDays := None \<rparr>))) = 10"
    by (simp_all add: lead_of_def nullish_default_def opt_chain_def)
  have p: "push (lead_of (Some (s\<lparr> calvingAlertBeforeDays := Some 0 \<rparr>))) c (Some (At t)) ''calving'' lbl m [] =
     [\<lparr> ev_when = At t, alertDate = timeClip t, ev_type = ''calving'', label = lbl,
        entity = \<lparr> ent_type = ''cow'', ent_id = cow_id c,
                   ent_name = str_or (cowName c) (str_or (cowNumber c) ''Cow'') \<rparr>,
        meta = m \<rparr>]"
    by (simp add: push_def lead_lookup_def l or_default_def shiftDays_At)
  show ?thesis
    by (intro conjI t(1) b d l p)
qed

section \<open>Properties of the confirmation filter\<close>

subsection \<open>The key strings\<close>

lemma digit_inj:
  assumes "0 \<le> a" "a \<le> 9" "0 \<le> b" "b \<le> 9"
  shows "digit a = digit b \<longleftrightarrow> a = b"
proof -
  have "(48 + a) mod 256 = 48 + a" "(48 + b) mod 256 = 48 + b"
    using assms by simp_all
  then show ?thesis by (simp add: digit_def)
qed

lemma mod10_range: fixes a :: int shows "0 \<le> a mod 10" "a mod 10 \<le> 9"
  by simp_all

lemma pad2_inj:
  assumes "0 \<le> a" "a \<le> 99" "0 \<le> b" "b \<le> 99"
  shows "pad2 a = pad2 b \<longleftrightarrow> a = b"
proof
  assume "pad2 a = pad2 b"
  then have "a div 10 mod 10 = b div 10 mod 10" "a mod 10 = b mod 10"
    by (simp_all add: pad2_def digit_inj mod10_range)
  moreover have "a div 10 mod 10 = a div 10" "b div 10 mod 10 = b div 10"
    using assms by simp_all
  moreover have "a = 10 * (a div 10) + a mod 10" "b = 10 * (b div 10) + b mod 10" by simp_all
  ultimately show "a = b" by metis
qed simp

text \<open>A key determines its four parts when the first two contain no colon.\<close>

lemma split_at_first:
  assumes "x \<notin> set xs" "x \<notin> set xs'"
  shows "xs @ x # ys = xs' @ x # ys' \<longleftrightarrow> xs = xs' \<and> ys = ys'"
  using assms
proof (induction xs arbitrary: xs')
  case Nil
  then show ?case by (cases xs') auto
next
  case (Cons a xs)
  then show ?case by (cases xs') auto
qed

lemma key_eq_iff:
  assumes "CHR '':'' \<notin> set a" "CHR '':'' \<notin> set a'" "CHR '':'' \<notin> set b" "CHR '':'' \<notin> set b'"
    and "length d = length d'"
  shows "a @ '':'' @ b @ '':'' @ c @ '':'' @ d = a' @ '':'' @ b' @ '':'' @ c' @ '':'' @ d'
    \<longleftrightarrow> a = a' \<and> b = b' \<and> c = c' \<and> d = d'"
proof -
  have 3: "c @ CHR '':'' # d = c' @ CHR '':'' # d' \<longleftrightarrow> c = c' \<and> d = d'"
    using assms(5) by (auto simp: append_eq_append_conv)
  have 2: "b @ CHR '':'' # c @ CHR '':'' # d = b' @ CHR '':'' # c' @ CHR '':'' # d'
      \<longleftrightarrow> b = b' \<and> c @ CHR '':'' # d = c' @ CHR '':'' # d'"
    using assms(3,4) by (rule split_at_first)
  have 1: "a @ CHR '':'' # b @ CHR '':'' # c @ CHR '':'' # d = a' @ CHR '':'' # b' @ CHR '':'' # c' @ CHR '':'' # d'
      \<longleftrightarrow> a = a' \<and> b @ CHR '':'' # c @ CHR '':'' # d = b' @ CHR '':'' # c' @ CHR '':'' # d'"
    using assms(1,2) by (rule split_at_first)
  show ?thesis using 1 2 3 by simp
qed


lemma digits4:
  fixes a :: int
  assumes "0 \<le> a" "a \<le> 9999"
  shows "a = 1000 * (a div 1000 mod 10) + 100 * (a div 100 mod 10) + 10 * (a div 10 mod 10) + a mod 10"
proof -
  define q1 q2 q3 where "q1 = a div 10" and "q2 = a div 100" and "q3 = a div 1000"
  define r0 r1 r2 r3 where "r0 = a mod 10" and "r1 = q1 mod 10" and "r2 = q2 mod 10"
    and "r3 = q3 mod 10"
  have 1: "a = 10 * q1 + r0" by (simp add: q1_def r0_def)
  have "q1 div 10 = q2" "q2 div 10 = q3"
    using zdiv_zmult2_eq [of 10 a 10] zdiv_zmult2_eq [of 10 a 100]
    by (simp_all add: q1_def q2_def q3_def)
  then have 2: "q1 = 10 * q2 + r1" and 3: "q2 = 10 * q3 + r2"
    using mult_div_mod_eq [of 10 q1] mult_div_mod_eq [of 10 q2] by (simp_all add: r1_def r2_def)
  have "0 \<le> q3" "q3 < 10" using assms by (simp_all add: q3_def)
  then have 4: "r3 = q3" by (simp add: r3_def)
  have "a = 1000 * r3 + 100 * r2 + 10 * r1 + r0" using 1 2 3 4 by linarith
  then show ?thesis
    unfolding r0_def r1_def r2_def r3_def q1_def q2_def q3_def .
qed

lemma pad4_inj:
  assumes "0 \<le> a" "a \<le> 9999" "0 \<le> b" "b \<le> 9999"
  shows "pad4 a = pad4 b \<longleftrightarrow> a = b"
proof
  assume "pad4 a = pad4 b"
  then have "a div 1000 mod 10 = b div 1000 mod 10" "a div 100 mod 10 = b div 100 mod 10"
    "a div 10 mod 10 = b div 10 mod 10" "a mod 10 = b mod 10"
    by (simp_all add: pad4_def digit_inj mod10_range)
  then show "a = b" using digits4 [OF assms(1,2)] digits4 [OF assms(3,4)] by metis
qed simp


text \<open>
  For a year from 0 to 9999 the first ten characters of the ISO string are the calendar
  date \<open>YYYY-MM-DD\<close>, and two such prefixes are equal exactly for the same day.
\<close>

lemma isoDay_4digit:
  assumes "0 \<le> yearFromDay (day_of t)" "yearFromDay (day_of t) \<le> 9999"
  shows "take 10 (toISOString t) =
    pad4 (yearFromDay (day_of t)) @ ''-'' @ pad2 (monthFromDay (day_of t) + 1) @ ''-'' @
    pad2 (dateFromDay (day_of t))"
  using assms by (simp add: toISOString_def isoYear_def pad4_def pad2_def)

lemma length_isoDay: "length (take 10 (toISOString t)) = 10"
  by (simp add: toISOString_def isoYear_def pad4_def pad2_def pad3_def pad6_def)

lemma isoDay_eq_iff:
  assumes "0 \<le> yearFromDay (day_of t)" "yearFromDay (day_of t) \<le> 9999"
    and "0 \<le> yearFromDay (day_of u)" "yearFromDay (day_of u) \<le> 9999"
  shows "take 10 (toISOString t) = take 10 (toISOString u) \<longleftrightarrow> day_of t = day_of u"
proof
  assume eq: "take 10 (toISOString t) = take 10 (toISOString u)"
  have m: "0 \<le> monthFromDay (day_of t) + 1" "monthFromDay (day_of t) + 1 \<le> 99"
    "0 \<le> monthFromDay (day_of u) + 1" "monthFromDay (day_of u) + 1 \<le> 99"
    using monthFromDay_range [of "day_of t"] monthFromDay_range [of "day_of u"] by simp_all
  have d: "0 \<le> dateFromDay (day_of t)" "dateFromDay (day_of t) \<le> 99"
    "0 \<le> dateFromDay (day_of u)" "dateFromDay (day_of u) \<le> 99"
    using dateFromDay_range [of "day_of t"] dateFromDay_range [of "day_of u"] by simp_all
  have l4: "length (pad4 (yearFromDay (day_of t))) = length (pad4 (yearFromDay (day_of u)))"
    by (simp add: pad4_def)
  have l2: "length (pad2 (monthFromDay (day_of t) + 1)) = length (pad2 (monthFromDay (day_of u) + 1))"
    by (simp add: pad2_def)
  from eq have "pad4 (yearFromDay (day_of t)) = pad4 (yearFromDay (day_of u)) \<and>
      pad2 (monthFromDay (day_of t) + 1) = pad2 (monthFromDay (day_of u) + 1) \<and>
      pad2 (dateFromDay (day_of t)) = pad2 (dateFromDay (day_of u))"
    unfolding isoDay_4digit [OF assms(1,2)] isoDay_4digit [OF assms(3,4)]
    using l4 l2 by simp
  then have "yearFromDay (day_of t) = yearFromDay (day_of u)"
    "monthFromDay (day_of t) = monthFromDay (day_of u)"
    "dateFromDay (day_of t) = dateFromDay (day_of u)"
    using pad4_inj [OF assms] pad2_inj [OF m] pad2_inj [OF d] by simp_all
  then show "day_of t = day_of u"
    using day_from_civil [of "day_of t"] day_from_civil [of "day_of u"] by simp
next
  assume "day_of t = day_of u"
  then show "take 10 (toISOString t) = take 10 (toISOString u)"
    by (simp add: isoDay_4digit assms)
qed


subsection \<open>The filter\<close>

lemma confKey_At:
  "ev_when e = At t \<Longrightarrow>
   confKey e = Inr (ent_type (entity e) @ '':'' @ ent_id (entity e) @ '':'' @ ev_type e @ '':'' @
                    take 10 (toISOString t))"
  by (simp add: confKey_def)


lemma filter_unconfirmed_Inr:
  "filter_unconfirmed ks es = Inr r \<Longrightarrow>
   (\<forall>e \<in> set es. \<exists>k. confKey e = Inr k) \<and>
   r = filter (\<lambda>e. \<forall>k. confKey e = Inr k \<longrightarrow> k \<notin> ks) es"
proof (induction es arbitrary: r)
  case Nil
  then show ?case by simp
next
  case (Cons e es)
  then show ?case by (auto split: sum.splits if_splits)
qed

lemma filter_unconfirmed_total:
  "\<forall>e \<in> set es. \<exists>k. confKey e = Inr k \<Longrightarrow> \<exists>r. filter_unconfirmed ks es = Inr r"
  by (induction es) (auto split: sum.splits)

lemma filterActive_member:
  assumes "filterActive events confs = Inr fs" and "confKey e = Inr k"
  shows "e \<in> set fs \<longleftrightarrow> e \<in> set events \<and> k \<notin> confirmed confs"
  using filter_unconfirmed_Inr [OF assms(1) [unfolded filterActive_def]] assms(2) by auto

lemma confirmed_iff:
  "k \<in> confirmed confs \<longleftrightarrow> (\<exists>c \<in> set confs. \<not> undone c \<and> confirmationKey c = k)"
  by (auto simp: confirmed_def)

text \<open>
  Within the years 0 to 9999 the filter has whole-day precision.  When the filter returns
  (no event has an Invalid Date), an event whose \<open>when\<close> lies in a year from 0 to 9999 is
  removed if and only if a confirmation that is not undone has the same entity type, entity
  id and milestone type and a \<open>when\<close> on the same calendar day (UTC), the confirmations'
  dates lying in those years too.  Entity types and ids contain no colon (they are \<open>cow\<close>,
  \<open>calf\<close>, \<open>bull\<close> and the hexadecimal strings of ObjectIds).
\<close>

lemma confirmation_filter_day_precision:
  assumes "filterActive events confs = Inr fs"
    and "e \<in> set events"
    and "ev_when e = At t"
    and "0 \<le> yearFromDay (day_of t) \<and> yearFromDay (day_of t) \<le> 9999"
    and "\<forall>c \<in> set confs. 0 \<le> yearFromDay (day_of (conf_when c)) \<and>
           yearFromDay (day_of (conf_when c)) \<le> 9999"
    and "CHR '':'' \<notin> set (ent_type (entity e)) \<and> CHR '':'' \<notin> set (ent_id (entity e))"
    and "\<forall>c \<in> set confs. CHR '':'' \<notin> set (entityType c) \<and> CHR '':'' \<notin> set (entityId c)"
  shows "e \<notin> set fs \<longleftrightarrow>
    (\<exists>c \<in> set confs. \<not> undone c \<and> entityType c = ent_type (entity e) \<and>
       entityId c = ent_id (entity e) \<and> conf_type c = ev_type e \<and>
       day_of (conf_when c) = day_of t)"
proof -
  let ?k = "ent_type (entity e) @ '':'' @ ent_id (entity e) @ '':'' @ ev_type e @ '':'' @
            take 10 (toISOString t)"
  have k: "confKey e = Inr ?k" using assms(3) by (rule confKey_At)
  have mem: "e \<notin> set fs \<longleftrightarrow> ?k \<in> confirmed confs"
    using filterActive_member [OF assms(1) k] assms(2) by simp
  have key: "confirmationKey c = ?k \<longleftrightarrow>
      entityType c = ent_type (entity e) \<and> entityId c = ent_id (entity e) \<and>
      conf_type c = ev_type e \<and> day_of (conf_when c) = day_of t" if c: "c \<in> set confs" for c
  proof -
    have len: "length (take 10 (toISOString (conf_when c))) = length (take 10 (toISOString t))"
      by (simp only: length_isoDay)
    have c1: "CHR '':'' \<notin> set (entityType c)" and c2: "CHR '':'' \<notin> set (entityId c)"
      using assms(7) c by simp_all
    have e1: "CHR '':'' \<notin> set (ent_type (entity e))"
      and e2: "CHR '':'' \<notin> set (ent_id (entity e))"
      using assms(6) by simp_all
    have "confirmationKey c = ?k \<longleftrightarrow>
      entityType c = ent_type (entity e) \<and> entityId c = ent_id (entity e) \<and>
      conf_type c = ev_type e \<and> take 10 (toISOString (conf_when c)) = take 10 (toISOString t)"
      unfolding confirmationKey_def by (rule key_eq_iff [OF c1 e1 c2 e2 len])
    moreover have "take 10 (toISOString (conf_when c)) = take 10 (toISOString t) \<longleftrightarrow>
      day_of (conf_when c) = day_of t"
      using assms(4,5) c by (intro isoDay_eq_iff) simp_all
    ultimately show ?thesis by simp
  qed
  show ?thesis
    unfolding mem confirmed_iff using key by blast
qed

lemma day_values:
  "day_of (utc 2024 3 5 + 82800000) = 19787" "day_of (utc 2024 3 5 + 600000) = 19787"
  "yearFromDay 19787 = 2024"
  by (simp_all add: utc_def makeDay_def makeDate_def dayFromYear_def monthStart_def
      inLeapYear_def msPerDay_def day_of_def yearFromDay_def)

text \<open>
  The concrete scenario: an event due 2024-03-05T23:00:00Z is filtered out by a
  confirmation of 2024-03-05T00:10:00Z for the same entity and type.
\<close>

lemma confirmation_filter_same_day_example:
  "\<exists>fs. filterActive [ev_jitter] [conf_jitter] = Inr fs \<and> ev_jitter \<notin> set fs"
proof -
  have k: "\<forall>e \<in> set [ev_jitter]. \<exists>k. confKey e = Inr k"
    by (simp add: confKey_def ev_jitter_def)
  from filter_unconfirmed_total [OF k, of "confirmed [conf_jitter]"]
  obtain fs where fs: "filterActive [ev_jitter] [conf_jitter] = Inr fs"
    by (auto simp: filterActive_def)
  have h2: "ev_jitter \<in> set [ev_jitter]" by simp
  have h3: "ev_when ev_jitter = At (utc 2024 3 5 + 23 * 3600000)" by (simp add: ev_jitter_def)
  have h4: "0 \<le> yearFromDay (day_of (utc 2024 3 5 + 23 * 3600000)) \<and>
            yearFromDay (day_of (utc 2024 3 5 + 23 * 3600000)) \<le> 9999"
    by (simp add: day_values)
  have h5: "\<forall>c \<in> set [conf_jitter]. 0 \<le> yearFromDay (day_of (conf_when c)) \<and>
           yearFromDay (day_of (conf_when c)) \<le> 9999"
    by (simp add: conf_jitter_def day_values)
  have h6: "CHR '':'' \<notin> set (ent_type (entity ev_jitter)) \<and>
            CHR '':'' \<notin> set (ent_id (entity ev_jitter))"
    by (simp add: ev_jitter_def)
  have h7: "\<forall>c \<in> set [conf_jitter]. CHR '':'' \<notin> set (entityType c) \<and>
            CHR '':'' \<notin> set (entityId c)"
    by (simp add: conf_jitter_def)
  have "ev_jitter \<notin> set fs"
    unfolding confirmation_filter_day_precision [OF fs h2 h3 h4 h5 h6 h7]
    by (simp add: conf_jitter_def ev_jitter_def day_values)
  with fs show ?thesis by blast
qed

text \<open>
  Beyond the year 9999 the ISO string of a date starts with a sign and six digits, so its
  first ten characters hold the year and the month only: an event due on 5 January 10000 is
  filtered out by a confirmation of 20 January 10000.
\<close>

lemma expanded_year_month_precision:
  "filterActive [ev_far] [conf_far] = Inr [] \<and>
   ev_when ev_far = At (utc 10000 1 5) \<and> conf_when conf_far = utc 10000 1 20 \<and>
   day_of (utc 10000 1 5) \<noteq> day_of (utc 10000 1 20)"
  by (simp add: filterActive_def confirmed_def confirmationKey_def confKey_def ev_far_def
      conf_far_def ev_jitter_def conf_jitter_def toISOString_def isoYear_def pad2_def pad3_def
      pad6_def utc_def makeDay_def makeDate_def dayFromYear_def monthStart_def inLeapYear_def
      msPerDay_def day_of_def yearFromDay_def monthFromDay_def dateFromDay_def dayWithinYear_def
      timeWithinDay_def Let_def)

text \<open>
  Claim C7 at dates beyond the year 9999, through \<open>buildAlerts\<close>.  A cow with a confirmed
  insemination of 1 April 9999 has its calving due on 9 January 10000; seen on 1 June 10000
  the past-due list holds the dry-off, the feed change and the calving.  With a confirmation
  of a calving of that cow dated 25 January 10000, another calendar day, the calving event
  is removed all the same, where the claim removes an event only for a confirmation of the
  same day.
\<close>

theorem calving_confirmation_year_10000:
  "(\<exists>r. buildAlerts [cow_a] [] None [insem_9999] [] None (utc 10000 6 1) = Inr r \<and>
        map (\<lambda>e. (ev_type e, ev_when e)) (pastDue r) =
          [(''dryOff'', At (utc 9999 11 7)), (''changeFeed'', At (utc 9999 12 17)),
           (''calving'', At (utc 10000 1 9))]) \<and>
   (\<exists>r. buildAlerts [cow_a] [] None [insem_9999] [conf_calving_10000] None (utc 10000 6 1) = Inr r \<and>
        map (\<lambda>e. (ev_type e, ev_when e)) (pastDue r) =
          [(''dryOff'', At (utc 9999 11 7)), (''changeFeed'', At (utc 9999 12 17))]) \<and>
   conf_when conf_calving_10000 = utc 10000 1 25 \<and>
   day_of (utc 10000 1 9) \<noteq> day_of (utc 10000 1 25)"
proof -
  have "case buildAlerts [cow_a] [] None [insem_9999] [] None (utc 10000 6 1) of
          Inr r \<Rightarrow> map (\<lambda>e. (ev_type e, ev_when e)) (pastDue r) =
            [(''dryOff'', At (utc 9999 11 7)), (''changeFeed'', At (utc 9999 12 17)),
             (''calving'', At (utc 10000 1 9))]
        | Inl x \<Rightarrow> False"
    by code_simp
  then have a: "\<exists>r. buildAlerts [cow_a] [] None [insem_9999] [] None (utc 10000 6 1) = Inr r \<and>
        map (\<lambda>e. (ev_type e, ev_when e)) (pastDue r) =
          [(''dryOff'', At (utc 9999 11 7)), (''changeFeed'', At (utc 9999 12 17)),
           (''calving'', At (utc 10000 1 9))]"
    by (cases "buildAlerts [cow_a] [] None [insem_9999] [] None (utc 10000 6 1)") simp_all
  have "case buildAlerts [cow_a] [] None [insem_9999] [conf_calving_10000] None (utc 10000 6 1) of
          Inr r \<Rightarrow> map (\<lambda>e. (ev_type e, ev_when e)) (pastDue r) =
            [(''dryOff'', At (utc 9999 11 7)), (''changeFeed'', At (utc 9999 12 17))]
        | Inl x \<Rightarrow> False"
    by code_simp
  then have b: "\<exists>r. buildAlerts [cow_a] [] None [insem_9999] [conf_calving_10000] None (utc 10000 6 1) = Inr r \<and>
        map (\<lambda>e. (ev_type e, ev_when e)) (pastDue r) =
          [(''dryOff'', At (utc 9999 11 7)), (''changeFeed'', At (utc 9999 12 17))]"
    by (cases "buildAlerts [cow_a] [] None [insem_9999] [conf_calving_10000] None (utc 10000 6 1)")
       simp_all
  have c: "conf_when conf_calving_10000 = utc 10000 1 25"
    by (simp add: conf_calving_10000_def)
  have d: "day_of (utc 10000 1 9) \<noteq> day_of (utc 10000 1 25)"
    by (simp add: utc_def makeDay_def makeDate_def dayFromYear_def monthStart_def
        inLeapYear_def msPerDay_def day_of_def)
  show ?thesis using a b c d by (intro conjI)
qed

subsection \<open>Undo\<close>

lemma undo_set:
  assumes "distinct (map conf_id confs)" and "c \<in> set confs"
  shows "set (undo (conf_id c) confs) = insert (c\<lparr> undone := True \<rparr>) (set confs - {c})"
  using assms
proof (induction confs)
  case Nil
  then show ?case by simp
next
  case (Cons x xs)
  show ?case
  proof (cases "conf_id x = conf_id c")
    case True
    with Cons.prems have "x = c" by (auto simp: image_iff)
    moreover have "c \<notin> set xs" using Cons.prems \<open>x = c\<close> by auto
    ultimately show ?thesis by auto
  next
    case False
    with Cons show ?thesis by auto
  qed
qed

lemma undo_idempotent: "undo cid (undo cid confs) = undo cid confs"
  by (induction confs) auto

lemma filterActive_total_change:
  assumes "filterActive events confs = Inr fs"
  shows "\<exists>fs'. filterActive events confs' = Inr fs'"
  using filter_unconfirmed_Inr [OF assms [unfolded filterActive_def]]
    filter_unconfirmed_total [of events "confirmed confs'"]
  by (simp add: filterActive_def)

text \<open>
  Claim C8 (undo round trip).  Let the stored confirmations have distinct ids, and let an
  event be suppressed by a confirmation \<open>c\<close> that is not undone and by no other one.  The
  filter over the confirmations removes the event; after \<open>undo\<close> of \<open>c\<close> the filter over the
  same events returns again and its result contains the event.
\<close>

theorem undo_roundtrip:
  assumes "distinct (map conf_id confs)"
    and "c \<in> set confs" and "\<not> undone c"
    and "e \<in> set events" and "confKey e = Inr k" and "confirmationKey c = k"
    and "\<forall>c' \<in> set confs. c' \<noteq> c \<and> \<not> undone c' \<longrightarrow> confirmationKey c' \<noteq> k"
    and "filterActive events confs = Inr fs"
  shows "e \<notin> set fs \<and>
         (\<exists>fs'. filterActive events (undo (conf_id c) confs) = Inr fs' \<and> e \<in> set fs')"
proof -
  have "k \<in> confirmed confs"
    using assms(2,3,6) by (auto simp: confirmed_iff)
  then have out: "e \<notin> set fs"
    using filterActive_member [OF assms(8) assms(5)] by simp
  obtain fs' where fs': "filterActive events (undo (conf_id c) confs) = Inr fs'"
    using filterActive_total_change [OF assms(8)] by blast
  have "k \<notin> confirmed (undo (conf_id c) confs)"
    unfolding confirmed_iff undo_set [OF assms(1,2)] using assms(7) by auto
  then have "e \<in> set fs'"
    using filterActive_member [OF fs' assms(5)] assms(4) by simp
  with out fs' show ?thesis by blast
qed

text \<open>The round trip at the event and the confirmation of 2024-03-05.\<close>

theorem undo_roundtrip_witness:
  "\<exists>fs fs'. filterActive [ev_jitter] [conf_jitter] = Inr fs \<and> ev_jitter \<notin> set fs \<and>
     filterActive [ev_jitter] (undo (conf_id conf_jitter) [conf_jitter]) = Inr fs' \<and>
     ev_jitter \<in> set fs'"
proof -
  let ?k = "''cow:65a1f0c2e4b0a1b2c3d4e5f6:dryOff:2024-03-05''"
  have iso: "take 10 (toISOString (utc 2024 3 5 + 82800000)) = ''2024-03-05''"
    "take 10 (toISOString (utc 2024 3 5 + 600000)) = ''2024-03-05''"
    by (simp_all add: toISOString_def isoYear_def pad2_def pad3_def pad4_def digit_def char_of_def
      utc_def makeDay_def makeDate_def dayFromYear_def monthStart_def inLeapYear_def
      msPerDay_def day_of_def yearFromDay_def monthFromDay_def dateFromDay_def dayWithinYear_def
      timeWithinDay_def Let_def)
  have h1: "distinct (map conf_id [conf_jitter])" by simp
  have h2: "conf_jitter \<in> set [conf_jitter]" by simp
  have h3: "\<not> undone conf_jitter" by (simp add: conf_jitter_def)
  have h4: "ev_jitter \<in> set [ev_jitter]" by simp
  have h5: "confKey ev_jitter = Inr ?k"
    by (simp add: confKey_def ev_jitter_def iso)
  have h6: "confirmationKey conf_jitter = ?k"
    by (simp add: confirmationKey_def conf_jitter_def iso)
  have h7: "\<forall>c' \<in> set [conf_jitter]. c' \<noteq> conf_jitter \<and> \<not> undone c' \<longrightarrow> confirmationKey c' \<noteq> ?k"
    by simp
  have "\<forall>e \<in> set [ev_jitter]. \<exists>k. confKey e = Inr k" using h5 by simp
  from filter_unconfirmed_total [OF this, of "confirmed [conf_jitter]"]
  obtain fs where h8: "filterActive [ev_jitter] [conf_jitter] = Inr fs"
    by (auto simp: filterActive_def)
  from undo_roundtrip [OF h1 h2 h3 h4 h5 h6 h7 h8] h8 show ?thesis by blast
qed

section \<open>Properties of the default tables\<close>

text \<open>
  The fallback defaults of \<open>buildPregnancyInfo\<close>, \<open>buildAlerts\<close> and
  \<open>getCalfGraduationInfo\<close> are, for every parameter, the values that the route
  \<open>GET /settings\<close> stores in a new settings document; the defaults of the Community
  schema's \<open>cattleSettings\<close> agree with them for \<open>gestationDays\<close>,
  \<open>dryOffAfterSuccessfulInsemDays\<close>, \<open>weaningAlertBeforeDays\<close>, \<open>femaleMaturityMonths\<close> and
  \<open>maleMaturityMonths\<close>.
\<close>

lemma server_fallbacks_are_seed:
  "resolved None = settingsSeed \<and>
   gestationDays (resolved None) = gestationDays cattleSettings \<and>
   dryOffAfterSuccessfulInsemDays (resolved None) = dryOffAfterSuccessfulInsemDays cattleSettings \<and>
   weaningAlertBeforeDays (resolved None) = weaningAlertBeforeDays cattleSettings \<and>
   femaleMaturityMonths (resolved None) = femaleMaturityMonths cattleSettings \<and>
   maleMaturityMonths (resolved None) = maleMaturityMonths cattleSettings"
  by (simp add: resolved_def cattleSettings_def settingsSeed_def timing_of_def lead_of_def
      weaningDays_def maturityMonths_def or_default_def nullish_default_def opt_chain_def)

text \<open>
  Claim C3 at an absent settings document (and at a document without
  \<open>calvingAlertBeforeDays\<close>): the consumers fall back to different constants.  For
  \<open>postpartumInseminationStartDays\<close>, \<open>buildPregnancyInfo\<close> uses 60 where the community
  dashboard and \<open>cattleSettings\<close> use 45; for \<open>inseminationIntervalDays\<close>, 90 against 21 and
  21; for \<open>calvingAlertBeforeDays\<close>, \<open>buildAlerts\<close> uses 10, the dashboard 14 and
  \<open>cattleSettings\<close> 7; for \<open>changeFeedAfterSuccessfulInsemDays\<close>, 260 against the 210 of
  \<open>cattleSettings\<close>; for \<open>femaleWeaningDays\<close>, \<open>buildAlerts\<close> and the dashboard use 180 and
  \<open>cattleSettings\<close> 60.
\<close>

theorem fallback_defaults_diverge:
  "t_postpartumStartDays (timing_of None) = 60 \<and>
   dash_postpartumDays (dashboard_of None None) = 45 \<and>
   postpartumInseminationStartDays cattleSettings = Some 45 \<and>
   t_retryIntervalDays (timing_of None) = 90 \<and>
   dash_inseminationIntervalDays (dashboard_of None None) = 21 \<and>
   inseminationIntervalDays cattleSettings = Some 21 \<and>
   lead_calving (lead_of None) = 10 \<and>
   dash_calvingAlertDays (dashboard_of None None) = 14 \<and>
   calvingAlertBeforeDays cattleSettings = Some 7 \<and>
   lead_calving (lead_of (Some settings_doc)) = 10 \<and>
   dash_calvingAlertDays (dashboard_of (Some settings_doc) None) = 14 \<and>
   t_changeFeedDays (timing_of None) = 260 \<and>
   changeFeedAfterSuccessfulInsemDays cattleSettings = Some 210 \<and>
   weaningDays None ''female'' = 180 \<and>
   dash_femaleWeaningDays (dashboard_of None None) = 180 \<and>
   femaleWeaningDays cattleSettings = Some 60 \<and>
   resolved None \<noteq> cattleSettings"
proof -
  have v: "t_postpartumStartDays (timing_of None) = 60"
    "dash_postpartumDays (dashboard_of None None) = 45"
    "postpartumInseminationStartDays cattleSettings = Some 45"
    "t_retryIntervalDays (timing_of None) = 90"
    "dash_inseminationIntervalDays (dashboard_of None None) = 21"
    "inseminationIntervalDays cattleSettings = Some 21"
    "lead_calving (lead_of None) = 10"
    "dash_calvingAlertDays (dashboard_of None None) = 14"
    "calvingAlertBeforeDays cattleSettings = Some 7"
    "lead_calving (lead_of (Some settings_doc)) = 10"
    "dash_calvingAlertDays (dashboard_of (Some settings_doc) None) = 14"
    "t_changeFeedDays (timing_of None) = 260"
    "changeFeedAfterSuccessfulInsemDays cattleSettings = Some 210"
    "weaningDays None ''female'' = 180"
    "dash_femaleWeaningDays (dashboard_of None None) = 180"
    "femaleWeaningDays cattleSettings = Some 60"
    by (simp_all add: dashboard_of_def cattleSettings_def timing_of_def lead_of_def weaningDays_def
        or_default_def nullish_default_def opt_chain_def settings_doc_def)
  have "resolved None \<noteq> cattleSettings"
  proof
    assume "resolved None = cattleSettings"
    then have "changeFeedAfterSuccessfulInsemDays (resolved None) =
        changeFeedAfterSuccessfulInsemDays cattleSettings" by simp
    then show False by (simp add: resolved_def v)
  qed
  with v show ?thesis by (intro conjI)
qed

section \<open>Properties of the calf loops\<close>

text \<open>
  Which calves get an event: a weaning event every calf with a birth date and a gender, a
  graduation event every such calf that is not graduated.
\<close>

lemma weaning_loop_eq:
  "weaning_loop ld sett ks evs =
     evs @ concat (map (\<lambda>k. case birth_and_gender k of
                               None \<Rightarrow> []
                             | Some (b, g) \<Rightarrow> [weaning_event ld sett k b g]) ks)"
  by (induction ks arbitrary: evs) (auto split: option.splits)

lemma graduation_loop_eq:
  "graduation_loop ld sett ks evs =
     evs @ concat (map (\<lambda>k. if graduated k then []
                             else case birth_and_gender k of
                                    None \<Rightarrow> []
                                  | Some (b, g) \<Rightarrow> [graduation_event ld sett k b g]) ks)"
  by (induction ks arbitrary: evs) (auto split: option.splits)

text \<open>
  Every calf with a birth date and a gender gets its weaning event, due the birth date plus
  the weaning days, and, when it is not graduated, its graduation event, due the birth date
  with the month field moved by the maturity months.
\<close>

lemma calf_events_emitted:
  assumes "build_events cows calves sett insems clock = Inr events"
    and "k \<in> set calves"
    and "birth_and_gender k = Some (b, g)"
  shows "weaning_event (lead_of sett) sett k b g \<in> set events \<and>
         (\<not> graduated k \<longrightarrow> graduation_event (lead_of sett) sett k b g \<in> set events) \<and>
         ev_when (weaning_event (lead_of sett) sett k b g) =
           timeClip (b + weaningDays sett g * msPerDay) \<and>
         ev_when (graduation_event (lead_of sett) sett k b g) =
           shiftMonths (At b) (maturityMonths sett g)"
proof -
  from assms(1) obtain evs where
    "events = (evs @ concat (map (\<lambda>k. case birth_and_gender k of None \<Rightarrow> []
                  | Some (b, g) \<Rightarrow> [weaning_event (lead_of sett) sett k b g]) calves)) @
              concat (map (\<lambda>k. if graduated k then []
                  else case birth_and_gender k of None \<Rightarrow> []
                       | Some (b, g) \<Rightarrow> [graduation_event (lead_of sett) sett k b g]) calves)"
    by (auto simp: build_events_def Let_def weaning_loop_eq graduation_loop_eq split: sum.splits)
  then have "weaning_event (lead_of sett) sett k b g \<in> set events"
    and "\<not> graduated k \<longrightarrow> graduation_event (lead_of sett) sett k b g \<in> set events"
    using assms(2,3) by (auto intro!: bexI [of _ k])
  then show ?thesis
    by (simp add: weaning_event_def graduation_event_def Let_def shiftDays_At)
qed

text \<open>The events do not depend on the status of any calf: the loops never read it.\<close>

lemma calf_events_ignore_status:
  "build_events cows (map (\<lambda>k. k\<lparr> calf_status := f k \<rparr>) calves) sett insems clock =
   build_events cows calves sett insems clock"
proof -
  have w: "(\<lambda>k. case birth_and_gender k of None \<Rightarrow> []
                 | Some (b, g) \<Rightarrow> [weaning_event ld sett k b g]) \<circ> (\<lambda>k. k\<lparr> calf_status := f k \<rparr>) =
           (\<lambda>k. case birth_and_gender k of None \<Rightarrow> []
                 | Some (b, g) \<Rightarrow> [weaning_event ld sett k b g])" for ld
    by (auto simp: fun_eq_iff birth_and_gender_def weaning_event_def Let_def split: option.splits)
  have g: "(\<lambda>k. if graduated k then []
                 else case birth_and_gender k of None \<Rightarrow> []
                      | Some (b, g) \<Rightarrow> [graduation_event ld sett k b g]) \<circ>
             (\<lambda>k. k\<lparr> calf_status := f k \<rparr>) =
           (\<lambda>k. if graduated k then []
                 else case birth_and_gender k of None \<Rightarrow> []
                      | Some (b, g) \<Rightarrow> [graduation_event ld sett k b g])" for ld
    by (auto simp: fun_eq_iff birth_and_gender_def graduation_event_def Let_def split: option.splits)
  show ?thesis
    by (simp add: build_events_def weaning_loop_eq graduation_loop_eq Let_def w g
        split: sum.splits)
qed

text \<open>
  The graduation date moves the month field: 24 months after 2024-01-01 is 2026-01-01,
  which 24 times 30 days after it is not.
\<close>

lemma graduation_target:
  "shiftMonths (At (utc 2024 1 1)) 24 = At (utc 2026 1 1)"
  by (simp add: shiftMonths_def utc_def makeDay_def makeDate_def dayFromYear_def monthStart_def
      inLeapYear_def msPerDay_def day_of_def yearFromDay_def monthFromDay_def dateFromDay_def
      dayWithinYear_def timeWithinDay_def timeClip_def Let_def)

lemma thirty_day_months_differ:
  "shiftDays (At (utc 2024 1 1)) (24 * 30) \<noteq> shiftMonths (At (utc 2024 1 1)) 24"
  unfolding graduation_target shiftDays_At
  by (simp add: utc_def makeDay_def makeDate_def dayFromYear_def
      monthStart_def inLeapYear_def msPerDay_def timeClip_def)

text \<open>
  Claim C4 at a calf that died: \<open>buildAlerts\<close> emits a weaning event and a graduation event
  for it (the graduation due on 2026-01-01, by the month arithmetic the claim describes),
  where the claim has events only for calves that are alive and not graduated.
\<close>

theorem lost_calf_gets_alerts:
  "calf_status calf_lost = ''died'' \<and>
   build_events [] [calf_lost] (Some settings_doc) [] (utc 2024 3 1) =
     Inr [weaning_event (lead_of (Some settings_doc)) (Some settings_doc) calf_lost (utc 2024 1 1) ''female'',
          graduation_event (lead_of (Some settings_doc)) (Some settings_doc) calf_lost (utc 2024 1 1) ''female''] \<and>
   ev_type (weaning_event (lead_of (Some settings_doc)) (Some settings_doc) calf_lost (utc 2024 1 1) ''female'') = ''weaning'' \<and>
   ev_type (graduation_event (lead_of (Some settings_doc)) (Some settings_doc) calf_lost (utc 2024 1 1) ''female'') = ''graduation'' \<and>
   ev_when (graduation_event (lead_of (Some settings_doc)) (Some settings_doc) calf_lost (utc 2024 1 1) ''female'') = At (utc 2026 1 1)"
proof -
  have m: "maturityMonths (Some settings_doc) ''female'' = 24"
    by (simp add: maturityMonths_def nullish_default_def opt_chain_def settings_doc_def)
  have "birth_and_gender calf_lost = Some (utc 2024 1 1, ''female'')"
    by (simp add: birth_and_gender_def calf_lost_def)
  moreover have "\<not> graduated calf_lost" "calf_status calf_lost = ''died''"
    by (simp_all add: calf_lost_def)
  ultimately show ?thesis
    by (simp add: build_events_def weaning_event_def graduation_event_def Let_def m
        graduation_target)
qed

lemma getCalfGraduationInfo_example:
  "map_option targetDate (getCalfGraduationInfo (Some calf_alive) (Some settings_doc) (utc 2024 3 1))
     = Some (At (utc 2026 1 1))"
proof -
  have m: "maturityMonths (Some settings_doc) ''female'' = 24"
    by (simp add: maturityMonths_def nullish_default_def opt_chain_def settings_doc_def)
  have "birth_and_gender calf_alive = Some (utc 2024 1 1, ''female'')"
    by (simp add: birth_and_gender_def calf_alive_def calf_lost_def)
  then show ?thesis
    by (simp add: getCalfGraduationInfo_def Let_def m graduation_target split: jsdate.splits)
qed

text \<open>
  A difference of 9504000000000001 ms is beyond the integers a double holds exactly and is
  rounded to 9504000000000000, so \<open>daysLeft\<close> is 110000000 and not one more.
\<close>

lemma getCalfGraduationInfo_rounds:
  "map_option daysLeft (getCalfGraduationInfo (Some calf_far) None clock_far) = Some (Num 110000000)"
  by code_simp

section \<open>Properties of \<open>buildAlerts\<close>: past due\<close>



subsection \<open>The days of a month\<close>














lemma month_length_pos:
  assumes "0 \<le> m" "m \<le> 11" "l = 0 \<or> l = 1"
  shows "monthStart m l < (if m = 11 then 365 + l else monthStart (m + 1) l)"
proof -
  have "m = 0 \<or> m = 1 \<or> m = 2 \<or> m = 3 \<or> m = 4 \<or> m = 5 \<or> m = 6 \<or> m = 7 \<or>
      m = 8 \<or> m = 9 \<or> m = 10 \<or> m = 11"
    using assms(1,2) by presburger
  then show ?thesis using assms(3) by (auto simp: monthStart_def)
qed



subsection \<open>The placement in buckets does not throw\<close>




lemma buildPregnancyInfo_returns: "\<exists>r. buildPregnancyInfo (Some c) sett insems clock = Inr r"
  by (simp add: buildPregnancyInfo_def Let_def)

lemma cows_loop_returns: "\<exists>evs. cows_loop ld sett insems clock cows events = Inr evs"
proof (induction cows arbitrary: events)
  case Nil
  then show ?case by simp
next
  case (Cons c cows)
  obtain r where "buildPregnancyInfo (Some c) sett (allRecords c insems) clock = Inr r"
    using buildPregnancyInfo_returns by blast
  then show ?case using Cons.IH by simp
qed

lemma build_events_returns: "\<exists>events. build_events cows calves sett insems clock = Inr events"
proof -
  obtain evs where "cows_loop (lead_of sett) sett insems clock cows [] = Inr evs"
    using cows_loop_returns by blast
  then show ?thesis by (simp add: build_events_def Let_def)
qed






lemma filter_unconfirmed_throws:
  "\<exists>e \<in> set es. ev_when e = Invalid \<Longrightarrow> filter_unconfirmed ks es = Inl RangeError"
proof (induction es)
  case Nil
  then show ?case by simp
next
  case (Cons e es)
  show ?case
  proof (cases "ev_when e")
    case Invalid
    then show ?thesis by (simp add: confKey_def)
  next
    case (At t)
    with Cons show ?thesis by (simp add: confKey_def)
  qed
qed

text \<open>One event with an Invalid Date makes \<open>buildAlerts\<close> throw.\<close>

lemma buildAlerts_throws:
  assumes "build_events cows calves sett insems clock = Inr events"
    and "\<exists>e \<in> set events. ev_when e = Invalid"
  shows "buildAlerts cows calves sett insems confs anchor clock = Inl RangeError"
  using assms filter_unconfirmed_throws [OF assms(2), of "confirmed confs"]
  by (simp add: buildAlerts_def Let_def filterActive_def)

end
